theory Spec2Isabelle
  imports Complex_Main
begin

section \<open>llm-token-tracker: pricing, usage aggregation, tracking sessions, persistence\<close>

text \<open>
  A shallow embedding of \<^verbatim>\<open>pricing.ts\<close>, \<^verbatim>\<open>tracker.ts\<close>, \<^verbatim>\<open>storage.ts\<close> and of the
  cost comparison of \<^verbatim>\<open>mcp-server.ts\<close>.

  Conventions of the embedding.
  \<^item> A JavaScript \<^verbatim>\<open>number\<close> is a rational (\<^typ>\<open>rat\<close>); there is no NaN and no infinity.
    The pricing arithmetic is exact. The additions of the aggregator are a parameter of
    its model: exact addition, or the addition of IEEE doubles with its rounding
    (\<open>doubleAdd\<close>), every finite double being a rational.
  \<^item> A JavaScript string is a \<^typ>\<open>string\<close>.
  \<^item> An optional property is an \<^typ>\<open>'a option\<close>, \<^term>\<open>None\<close> standing for \<^verbatim>\<open>undefined\<close>.
  \<^item> A \<^verbatim>\<open>Map\<close> or an object used as a dictionary is a partial function; the order of its
    keys is not modelled.
  \<^item> A statement that can throw returns a sum, \<^term>\<open>Inl\<close> carrying the error.
\<close>

subsection \<open>Strings\<close>

text \<open>\<^verbatim>\<open>String.prototype.startsWith\<close> and \<^verbatim>\<open>String.prototype.includes\<close>.\<close>

fun startsWith :: "string \<Rightarrow> string \<Rightarrow> bool" where
  "startsWith s [] = True"
| "startsWith [] (p # ps) = False"
| "startsWith (c # cs) (p # ps) = (c = p \<and> startsWith cs ps)"

fun includesStr :: "string \<Rightarrow> string \<Rightarrow> bool" where
  "includesStr [] sub = (sub = [])"
| "includesStr (c # cs) sub = (startsWith (c # cs) sub \<or> includesStr cs sub)"

text \<open>The character class \<^verbatim>\<open>\d\<close> of a regular expression without the unicode flag.\<close>

definition isDigit :: "char \<Rightarrow> bool" where
  "isDigit c = (c \<in> set ''0123456789'')"

text \<open>
  \<^verbatim>\<open>model.replace(/(\d+)\.(\d+)/g, '$1-$2')\<close>. The scan goes from left to right. At a
  position where a maximal run of digits, a dot and a second run of digits begin, the dot
  becomes a dash and the scan goes on behind the second run; at any other position one
  character is copied.
\<close>

function normalizeModelName :: "string \<Rightarrow> string" where
  "normalizeModelName [] = []"
| "normalizeModelName (c # cs) =
     (let ds = takeWhile isDigit (c # cs);
          rest = dropWhile isDigit (c # cs)
      in if ds \<noteq> [] \<and> rest \<noteq> [] \<and> hd rest = CHR ''.'' \<and> takeWhile isDigit (tl rest) \<noteq> []
         then ds @ ''-'' @ takeWhile isDigit (tl rest)
                @ normalizeModelName (dropWhile isDigit (tl rest))
         else c # normalizeModelName cs)"
  by pat_completeness auto
termination
proof (relation "measure length")
  show "wf (measure length)" by simp
next
  fix c :: char and cs ds rest :: string
  assume "rest = dropWhile isDigit (c # cs)"
  have "length (dropWhile isDigit (tl (dropWhile isDigit (c # cs))))
          \<le> length (tl (dropWhile isDigit (c # cs)))"
    by (rule length_dropWhile_le)
  also have "\<dots> \<le> length (dropWhile isDigit (c # cs)) - 1" by simp
  also have "\<dots> \<le> length (c # cs) - 1"
    using length_dropWhile_le [of isDigit "c # cs"] by (simp only: diff_le_mono)
  finally show "(dropWhile isDigit (tl rest), c # cs) \<in> measure length"
    using \<open>rest = dropWhile isDigit (c # cs)\<close> by simp
next
  fix c :: char and cs :: string
  show "(cs, c # cs) \<in> measure length" by simp
qed

declare normalizeModelName.simps [simp del]

subsection \<open>The pricing table\<close>

text \<open>An entry \<^verbatim>\<open>{ input, output }\<close>: USD per 1000 tokens.\<close>

record TokenRate =
  inputRate :: rat
  outputRate :: rat

text \<open>The three sizes of an image price list of \<^verbatim>\<open>dall-e-3\<close>.\<close>

record ImageSizes =
  size_1024x1024 :: rat
  size_1024x1792 :: rat
  size_1792x1024 :: rat

text \<open>The shapes an entry of \<^verbatim>\<open>PRICING.openai\<close> has.\<close>

datatype OpenAIEntry =
    PerToken TokenRate
  | DallE3 ImageSizes ImageSizes
  | DallE2 rat rat rat
  | PerMinute rat
  | PerChar rat

definition rate :: "rat \<Rightarrow> rat \<Rightarrow> TokenRate" where
  "rate i out = \<lparr>inputRate = i, outputRate = out\<rparr>"

definition PRICING_openai :: "(string \<times> OpenAIEntry) list" where
  "PRICING_openai =
    [(''gpt-5'', PerToken (rate 0.00125 0.010)),
     (''gpt-5-mini'', PerToken (rate 0.00025 0.0010)),
     (''gpt-4.1'', PerToken (rate 0.0020 0.008)),
     (''gpt-4.1-mini'', PerToken (rate 0.00015 0.0006)),
     (''gpt-4o'', PerToken (rate 0.0025 0.010)),
     (''gpt-4o-mini'', PerToken (rate 0.00015 0.0006)),
     (''o1'', PerToken (rate 0.015 0.060)),
     (''o1-mini'', PerToken (rate 0.0011 0.0044)),
     (''o1-pro'', PerToken (rate 0.015 0.060)),
     (''o3-mini'', PerToken (rate 0.0011 0.0044)),
     (''o4-mini'', PerToken (rate 0.0011 0.0044)),
     (''gpt-4-turbo-preview'', PerToken (rate 0.01 0.03)),
     (''gpt-4-turbo'', PerToken (rate 0.01 0.03)),
     (''gpt-4'', PerToken (rate 0.03 0.06)),
     (''gpt-4-32k'', PerToken (rate 0.06 0.12)),
     (''gpt-3.5-turbo'', PerToken (rate 0.0005 0.0015)),
     (''gpt-3.5-turbo-16k'', PerToken (rate 0.001 0.002)),
     (''text-embedding-ada-002'', PerToken (rate 0.0001 0)),
     (''text-embedding-3-small'', PerToken (rate 0.00002 0)),
     (''text-embedding-3-large'', PerToken (rate 0.00013 0)),
     (''dall-e-3'',
        DallE3 \<lparr>size_1024x1024 = 0.040, size_1024x1792 = 0.080, size_1792x1024 = 0.080\<rparr>
               \<lparr>size_1024x1024 = 0.080, size_1024x1792 = 0.120, size_1792x1024 = 0.120\<rparr>),
     (''dall-e-2'', DallE2 0.020 0.018 0.016),
     (''whisper-1'', PerMinute 0.006),
     (''tts-1'', PerChar 0.000015),
     (''tts-1-hd'', PerChar 0.000030)]"

definition PRICING_anthropic :: "(string \<times> TokenRate) list" where
  "PRICING_anthropic =
    [(''claude-opus-4.1-20250805'', rate 0.015 0.075),
     (''claude-opus-4-20250522'', rate 0.015 0.075),
     (''claude-opus-4-20250514'', rate 0.015 0.075),
     (''claude-sonnet-4.5-20250929'', rate 0.003 0.015),
     (''claude-sonnet-4-20250514'', rate 0.003 0.015),
     (''claude-3.5-sonnet-20241022'', rate 0.003 0.015),
     (''claude-3.5-haiku-20241022'', rate 0.00025 0.00125),
     (''claude-3-opus-20240229'', rate 0.015 0.075),
     (''claude-3-sonnet-20240229'', rate 0.003 0.015),
     (''claude-3-haiku-20240307'', rate 0.00025 0.00125),
     (''claude-2.1'', rate 0.008 0.024),
     (''claude-2.0'', rate 0.008 0.024),
     (''claude-instant-1.2'', rate 0.0008 0.0024)]"

definition PRICING_gemini :: "(string \<times> TokenRate) list" where
  "PRICING_gemini =
    [(''gemini-2.0-flash-exp'', rate 0 0),
     (''gemini-2.0-flash-thinking-exp-1219'', rate 0 0),
     (''gemini-1.5-pro'', rate 0.00125 0.005),
     (''gemini-1.5-pro-001'', rate 0.00125 0.005),
     (''gemini-1.5-pro-002'', rate 0.00125 0.005),
     (''gemini-1.5-flash'', rate 0.000075 0.0003),
     (''gemini-1.5-flash-001'', rate 0.000075 0.0003),
     (''gemini-1.5-flash-002'', rate 0.000075 0.0003),
     (''gemini-1.5-flash-8b'', rate 0.0000375 0.00015),
     (''gemini-1.0-pro'', rate 0.0005 0.0015),
     (''gemini-1.0-pro-001'', rate 0.0005 0.0015),
     (''gemini-1.0-pro-vision'', rate 0.00025 0.0005),
     (''gemini-ultra'', rate 0.002 0.006)]"

subsection \<open>calculateCost\<close>

text \<open>
  The errors of the model: the \<^verbatim>\<open>Error\<close> that \<^verbatim>\<open>endTracking\<close> throws for a tracking id it
  does not know, and the \<^verbatim>\<open>TypeError\<close> of reading a property of \<^verbatim>\<open>undefined\<close>.
\<close>

datatype error = NotFound string | TypeError

text \<open>\<^verbatim>\<open>(inputTokens / 1000) * p.input + (outputTokens / 1000) * p.output\<close>\<close>

definition perTokenCost :: "TokenRate \<Rightarrow> rat \<Rightarrow> rat \<Rightarrow> rat" where
  "perTokenCost p inputTokens outputTokens =
     (inputTokens / 1000) * inputRate p + (outputTokens / 1000) * outputRate p"

definition gptModels :: "string list" where
  "gptModels =
    [''gpt-5'', ''gpt-5-mini'', ''gpt-4-1'', ''gpt-4-1-mini'',
     ''gpt-4o'', ''gpt-4o-mini'',
     ''o1'', ''o1-mini'', ''o1-pro'', ''o3-mini'', ''o4-mini'',
     ''gpt-4-turbo-preview'', ''gpt-4-turbo'', ''gpt-4'', ''gpt-4-32k'',
     ''gpt-3-5-turbo'', ''gpt-3-5-turbo-16k'']"

text \<open>The chain of assignments that maps a normalized name back to its pricing key.\<close>

definition openaiPricingKey :: "string \<Rightarrow> string" where
  "openaiPricingKey gptModel =
     (if gptModel = ''gpt-3-5-turbo-16k'' then ''gpt-3.5-turbo-16k''
      else if gptModel = ''gpt-3-5-turbo'' then ''gpt-3.5-turbo''
      else if gptModel = ''gpt-4-1-mini'' then ''gpt-4.1-mini''
      else if gptModel = ''gpt-4-1'' then ''gpt-4.1''
      else gptModel)"

definition claudeModels :: "string list" where
  "claudeModels =
    [''claude-opus-4-1-20250805'', ''claude-opus-4-20250522'', ''claude-opus-4-20250514'',
     ''claude-sonnet-4-5-20250929'', ''claude-sonnet-4-20250514'',
     ''claude-3-5-sonnet-20241022'', ''claude-3-5-haiku-20241022'',
     ''claude-3-opus-20240229'', ''claude-3-sonnet-20240229'', ''claude-3-haiku-20240307'',
     ''claude-2-1'', ''claude-2-0'', ''claude-instant-1-2'']"

definition anthropicPricingKey :: "string \<Rightarrow> string" where
  "anthropicPricingKey claudeModel =
     (if claudeModel = ''claude-instant-1-2'' then ''claude-instant-1.2''
      else if claudeModel = ''claude-2-0'' then ''claude-2.0''
      else if claudeModel = ''claude-2-1'' then ''claude-2.1''
      else if claudeModel = ''claude-3-5-haiku-20241022'' then ''claude-3.5-haiku-20241022''
      else if claudeModel = ''claude-3-5-sonnet-20241022'' then ''claude-3.5-sonnet-20241022''
      else if claudeModel = ''claude-sonnet-4-5-20250929'' then ''claude-sonnet-4.5-20250929''
      else if claudeModel = ''claude-opus-4-1-20250805'' then ''claude-opus-4.1-20250805''
      else claudeModel)"

definition geminiModels :: "string list" where
  "geminiModels =
    [''gemini-2-0-flash-exp'', ''gemini-2-0-flash-thinking-exp-1219'',
     ''gemini-1-5-pro'', ''gemini-1-5-pro-001'', ''gemini-1-5-pro-002'',
     ''gemini-1-5-flash'', ''gemini-1-5-flash-001'', ''gemini-1-5-flash-002'',
     ''gemini-1-5-flash-8b'',
     ''gemini-1-0-pro'', ''gemini-1-0-pro-001'', ''gemini-1-0-pro-vision'',
     ''gemini-ultra'']"

definition geminiPricingKey :: "string \<Rightarrow> string" where
  "geminiPricingKey geminiModel =
     (if geminiModel = ''gemini-1-0-pro-vision'' then ''gemini-1.0-pro-vision''
      else if geminiModel = ''gemini-1-0-pro-001'' then ''gemini-1.0-pro-001''
      else if geminiModel = ''gemini-1-0-pro'' then ''gemini-1.0-pro''
      else if geminiModel = ''gemini-1-5-flash-8b'' then ''gemini-1.5-flash-8b''
      else if geminiModel = ''gemini-1-5-flash-002'' then ''gemini-1.5-flash-002''
      else if geminiModel = ''gemini-1-5-flash-001'' then ''gemini-1.5-flash-001''
      else if geminiModel = ''gemini-1-5-flash'' then ''gemini-1.5-flash''
      else if geminiModel = ''gemini-1-5-pro-002'' then ''gemini-1.5-pro-002''
      else if geminiModel = ''gemini-1-5-pro-001'' then ''gemini-1.5-pro-001''
      else if geminiModel = ''gemini-1-5-pro'' then ''gemini-1.5-pro''
      else if geminiModel = ''gemini-2-0-flash-thinking-exp-1219''
        then ''gemini-2.0-flash-thinking-exp-1219''
      else if geminiModel = ''gemini-2-0-flash-exp'' then ''gemini-2.0-flash-exp''
      else geminiModel)"

text \<open>
  The loop over \<^verbatim>\<open>gptModels\<close>: the first candidate that the normalized name includes and
  whose entry has an \<^verbatim>\<open>input\<close> property decides; \<^term>\<open>None\<close> when the loop ends without a
  \<^verbatim>\<open>return\<close>.
\<close>

fun openaiLoop :: "string list \<Rightarrow> string \<Rightarrow> rat \<Rightarrow> rat \<Rightarrow> rat option" where
  "openaiLoop [] normalizedModel inputTokens outputTokens = None"
| "openaiLoop (gptModel # others) normalizedModel inputTokens outputTokens =
     (if includesStr normalizedModel gptModel
      then (case map_of PRICING_openai (openaiPricingKey gptModel) of
              Some (PerToken modelPricing) \<Rightarrow>
                Some (perTokenCost modelPricing inputTokens outputTokens)
            | _ \<Rightarrow> openaiLoop others normalizedModel inputTokens outputTokens)
      else openaiLoop others normalizedModel inputTokens outputTokens)"

text \<open>
  The loops over \<^verbatim>\<open>claudeModels\<close> and \<^verbatim>\<open>geminiModels\<close>: the first candidate that the
  normalized name includes and that has an entry decides.
\<close>

fun tokenLoop ::
  "(string \<times> TokenRate) list \<Rightarrow> (string \<Rightarrow> string) \<Rightarrow> string list \<Rightarrow> string \<Rightarrow> rat \<Rightarrow> rat
     \<Rightarrow> rat option" where
  "tokenLoop pricing pricingKey [] normalizedModel inputTokens outputTokens = None"
| "tokenLoop pricing pricingKey (candidate # others) normalizedModel inputTokens outputTokens =
     (if includesStr normalizedModel candidate
      then (case map_of pricing (pricingKey candidate) of
              Some modelPricing \<Rightarrow> Some (perTokenCost modelPricing inputTokens outputTokens)
            | None \<Rightarrow>
                tokenLoop pricing pricingKey others normalizedModel inputTokens outputTokens)
      else tokenLoop pricing pricingKey others normalizedModel inputTokens outputTokens)"

text \<open>The fallback for unknown providers (a warning is logged).\<close>

definition unknownProviderCost :: "rat \<Rightarrow> rat \<Rightarrow> rat" where
  "unknownProviderCost inputTokens outputTokens = (inputTokens + outputTokens) * 0.001"

text \<open>
  The special handling of Whisper: returns only for the name \<^verbatim>\<open>whisper-1\<close> with a
  \<^verbatim>\<open>perMinute\<close> entry.
\<close>

definition whisperCost :: "string \<Rightarrow> rat \<Rightarrow> rat option" where
  "whisperCost normalizedModel inputTokens =
     (if normalizedModel = ''whisper-1''
      then (case map_of PRICING_openai ''whisper-1'' of
              Some (PerMinute perMinute) \<Rightarrow> Some ((inputTokens / 60) * perMinute)
            | _ \<Rightarrow> None)
      else None)"

text \<open>
  The special handling of text-to-speech: returns only when the whole normalized name is a
  key of the table with a \<^verbatim>\<open>perChar\<close> entry.
\<close>

definition ttsCost :: "string \<Rightarrow> rat \<Rightarrow> rat option" where
  "ttsCost normalizedModel inputTokens =
     (if startsWith normalizedModel ''tts-''
      then (case map_of PRICING_openai normalizedModel of
              Some (PerChar perChar) \<Rightarrow> Some (inputTokens * perChar)
            | _ \<Rightarrow> None)
      else None)"

text \<open>
  The branch of \<^verbatim>\<open>provider === 'openai'\<close>. \<^term>\<open>None\<close> when the block ends without a
  \<^verbatim>\<open>return\<close>, which hands over to the code behind it.
\<close>

definition openaiCost :: "string \<Rightarrow> rat \<Rightarrow> rat \<Rightarrow> rat option" where
  "openaiCost normalizedModel inputTokens outputTokens =
     (if startsWith normalizedModel ''dall-e''
      then (case map_of PRICING_openai ''dall-e-3'' of
              Some (DallE3 standard hdQuality) \<Rightarrow> Some (inputTokens * size_1024x1024 standard)
            | _ \<Rightarrow> Some (inputTokens * 0.040))
      else case whisperCost normalizedModel inputTokens of
        Some c \<Rightarrow> Some c
      | None \<Rightarrow>
     (case ttsCost normalizedModel inputTokens of
        Some c \<Rightarrow> Some c
      | None \<Rightarrow>
     (case openaiLoop gptModels normalizedModel inputTokens outputTokens of
        Some c \<Rightarrow> Some c
      | None \<Rightarrow>
     (case map_of PRICING_openai ''gpt-3.5-turbo'' of
        Some (PerToken defaultPricing) \<Rightarrow>
          Some (perTokenCost defaultPricing inputTokens outputTokens)
      | _ \<Rightarrow> None))))"

text \<open>
  The branches of \<^verbatim>\<open>provider === 'anthropic'\<close> and \<^verbatim>\<open>provider === 'gemini'\<close>: the loop, then
  the default entry, whose properties are read without a check.
\<close>

definition tokenProviderCost ::
  "(string \<times> TokenRate) list \<Rightarrow> (string \<Rightarrow> string) \<Rightarrow> string list \<Rightarrow> string \<Rightarrow> string
     \<Rightarrow> rat \<Rightarrow> rat \<Rightarrow> error + rat" where
  "tokenProviderCost pricing pricingKey candidates defaultKey normalizedModel
       inputTokens outputTokens =
     (case tokenLoop pricing pricingKey candidates normalizedModel inputTokens outputTokens of
        Some c \<Rightarrow> Inr c
      | None \<Rightarrow>
          (case map_of pricing defaultKey of
             Some defaultPricing \<Rightarrow> Inr (perTokenCost defaultPricing inputTokens outputTokens)
           | None \<Rightarrow> Inl TypeError))"

definition calculateCost :: "string \<Rightarrow> string \<Rightarrow> rat \<Rightarrow> rat \<Rightarrow> error + rat" where
  "calculateCost provider model inputTokens outputTokens =
     (let normalizedModel = normalizeModelName model;
          afterOpenai =
            (if provider = ''anthropic''
             then tokenProviderCost PRICING_anthropic anthropicPricingKey claudeModels
                    ''claude-3-sonnet-20240229'' normalizedModel inputTokens outputTokens
             else if provider = ''gemini''
             then tokenProviderCost PRICING_gemini geminiPricingKey geminiModels
                    ''gemini-1.5-flash'' normalizedModel inputTokens outputTokens
             else Inr (unknownProviderCost inputTokens outputTokens))
      in if provider = ''openai''
         then (case openaiCost normalizedModel inputTokens outputTokens of
                 Some c \<Rightarrow> Inr c
               | None \<Rightarrow> afterOpenai)
         else afterOpenai)"

subsection \<open>Truthiness\<close>

text \<open>
  \<^verbatim>\<open>x || d\<close> yields \<^verbatim>\<open>d\<close> when \<^verbatim>\<open>x\<close> is falsy: \<^verbatim>\<open>undefined\<close>, the empty string or
  the number zero. An object is always truthy.
\<close>

definition strOr :: "string option \<Rightarrow> string \<Rightarrow> string" where
  "strOr x d = (case x of None \<Rightarrow> d | Some s \<Rightarrow> if s = [] then d else s)"

definition strOrUndefined :: "string option \<Rightarrow> string option \<Rightarrow> string option" where
  "strOrUndefined x d = (case x of None \<Rightarrow> d | Some s \<Rightarrow> if s = [] then d else Some s)"

definition numOr :: "rat option \<Rightarrow> rat \<Rightarrow> rat" where
  "numOr x d = (case x of None \<Rightarrow> d | Some n \<Rightarrow> if n = 0 then d else n)"

subsection \<open>The addition of IEEE doubles\<close>

text \<open>
  A finite double is a rational \<open>m * 2 ^ e\<close> with an integer \<open>m\<close> below \<open>2 ^ 53\<close> in absolute
  value and \<open>e\<close> from \<open>- 1074\<close>. The sum of two doubles is the exact sum rounded to the nearest
  double, a tie going to the even \<open>m\<close>. The rounding first brings the absolute value into
  the range from \<open>2 ^ 52\<close> to \<open>2 ^ 53\<close> by halving or doubling it (doubling stops at the
  exponent \<open>- 1074\<close> of the subnormal numbers), then rounds the scaled value to an integer.
  Sums beyond the largest double (the runtime gives \<^verbatim>\<open>Infinity\<close>) and the sign of zero are
  outside of the model.
\<close>

function scaleDown :: "rat \<Rightarrow> int \<Rightarrow> rat \<times> int" where
  "scaleDown m e = (if 9007199254740992 \<le> m then scaleDown (m / 2) (e + 1) else (m, e))"
  by pat_completeness auto
termination
proof (relation "measure (\<lambda>(m, e). nat \<lfloor>m\<rfloor>)")
  show "wf (measure (\<lambda>(m, e). nat \<lfloor>m\<rfloor>))" by simp
next
  fix m :: rat and e :: int
  assume big: "9007199254740992 \<le> m"
  then have "m / 2 + 1 \<le> m" by simp
  then have "\<lfloor>m / 2 + 1\<rfloor> \<le> \<lfloor>m\<rfloor>" by (rule floor_mono)
  then have "\<lfloor>m / 2\<rfloor> < \<lfloor>m\<rfloor>" by simp
  moreover have "0 < \<lfloor>m\<rfloor>" using big by simp
  ultimately show "((m / 2, e + 1), (m, e)) \<in> measure (\<lambda>(m, e). nat \<lfloor>m\<rfloor>)"
    by simp
qed

declare scaleDown.simps [simp del]

function scaleUp :: "rat \<Rightarrow> int \<Rightarrow> rat \<times> int" where
  "scaleUp m e =
     (if m < 4503599627370496 \<and> - 1074 < e then scaleUp (m * 2) (e - 1) else (m, e))"
  by pat_completeness auto
termination
  by (relation "measure (\<lambda>(m, e). nat (e + 1074))") auto

declare scaleUp.simps [simp del]

definition roundHalfEven :: "rat \<Rightarrow> int" where
  "roundHalfEven m =
     (let f = \<lfloor>m\<rfloor>; r = m - of_int f
      in if r < 1 / 2 then f
         else if 1 / 2 < r then f + 1
         else if even f then f else f + 1)"

definition twoPow :: "int \<Rightarrow> rat" where
  "twoPow e = (if 0 \<le> e then 2 ^ nat e else 1 / 2 ^ nat (- e))"

definition roundToDouble :: "rat \<Rightarrow> rat" where
  "roundToDouble x =
     (if x = 0 then 0
      else case scaleDown \<bar>x\<bar> 0 of (m1, e1) \<Rightarrow>
           case scaleUp m1 e1 of (m, e) \<Rightarrow>
             sgn x * of_int (roundHalfEven m) * twoPow e)"

definition doubleAdd :: "rat \<Rightarrow> rat \<Rightarrow> rat" where
  "doubleAdd a b = roundToDouble (a + b)"

subsection \<open>The data model\<close>

text \<open>A \<^verbatim>\<open>Date\<close>: its time value, in milliseconds since the epoch.\<close>

type_synonym Date = int

datatype Currency = USD | KRW

record Cost =
  amount :: rat
  currency :: Currency

text \<open>The values found in a \<^verbatim>\<open>metadata\<close> bag.\<close>

datatype JsValue = JsBool bool | JsNum rat | JsStr string | JsNull

text \<open>
  \<^verbatim>\<open>TokenUsage\<close>. The type parameter is the representation of the time stamp: a \<^typ>\<open>Date\<close>
  in memory, a \<^typ>\<open>string\<close> in a JSON document.
\<close>

record 't TokenUsage =
  provider :: string
  model :: string
  inputTokens :: "rat option"
  outputTokens :: "rat option"
  totalTokens :: rat
  cost :: Cost
  timestamp :: 't
  userId :: "string option"
  sessionId :: "string option"
  metadata :: "(string \<rightharpoonup> JsValue) option"

text \<open>
  The properties of the \<^verbatim>\<open>Partial<TokenUsage>\<close> argument that \<^verbatim>\<open>endTracking\<close> reads
  (it reads no other).
\<close>

record PartialTokenUsage =
  optProvider :: "string option"
  optModel :: "string option"
  optInputTokens :: "rat option"
  optOutputTokens :: "rat option"
  optTotalTokens :: "rat option"
  optCost :: "Cost option"
  optMetadata :: "(string \<rightharpoonup> JsValue) option"

text \<open>A value of \<^verbatim>\<open>usageByModel\<close>: \<^verbatim>\<open>{ tokens, cost }\<close>.\<close>

record ModelUsage =
  tokens :: rat
  modelCost :: rat

text \<open>\<^verbatim>\<open>UserUsage\<close>, with the properties \<^verbatim>\<open>userId\<close>, \<^verbatim>\<open>totalTokens\<close> and \<^verbatim>\<open>currency\<close> prefixed.\<close>

record 't UserUsage =
  userUserId :: string
  userTotalTokens :: rat
  totalCost :: rat
  userCurrency :: string
  usageByModel :: "string \<rightharpoonup> ModelUsage"
  lastUsed :: 't

text \<open>A value of \<^verbatim>\<open>activeTracking\<close>: \<^verbatim>\<open>{ userId, sessionId, startTime }\<close>.\<close>

record Tracking =
  trackingUserId :: "string option"
  trackingSessionId :: "string option"
  startTime :: int

record TrackerConfig =
  configCurrency :: "Currency option"
  webhookUrl :: "string option"
  saveToDatabase :: "bool option"
  enableFileStorage :: "bool option"

subsection \<open>File storage\<close>

record 't StorageData =
  history :: "string \<rightharpoonup> 't TokenUsage list"
  totals :: "string \<rightharpoonup> 't UserUsage"
  lastSaved :: string

text \<open>
  What is at the storage path: nothing, a text that \<^verbatim>\<open>JSON.parse\<close> or the conversion of
  the dates throws on, or a JSON document of the shape of \<^verbatim>\<open>StorageData\<close>, its dates being
  strings.
\<close>

datatype FileContent = NoFile | Corrupt | Json "string StorageData"

text \<open>
  \<^verbatim>\<open>FileStorage\<close>, together with the file it points to. \<^term>\<open>writable\<close> says whether
  \<^verbatim>\<open>fs.writeFileSync\<close> succeeds. \<^term>\<open>dateToJSON\<close> and \<^term>\<open>newDate\<close> are the runtime's
  \<^verbatim>\<open>Date.prototype.toJSON\<close> (also \<^verbatim>\<open>toISOString\<close>) and \<^verbatim>\<open>new Date(string)\<close>.
\<close>

record FileStorage =
  storagePath :: string
  autoSave :: bool
  fileContent :: FileContent
  writable :: bool
  dateToJSON :: "Date \<Rightarrow> string"
  newDate :: "string \<Rightarrow> Date"

text \<open>What \<^verbatim>\<open>JSON.stringify\<close> and the loop of \<^verbatim>\<open>load\<close> do to the time stamp of a record.\<close>

definition mapTimestamp :: "('a \<Rightarrow> 'b) \<Rightarrow> 'a TokenUsage \<Rightarrow> 'b TokenUsage" where
  "mapTimestamp f usage =
     \<lparr>provider = provider usage, model = model usage,
      inputTokens = inputTokens usage, outputTokens = outputTokens usage,
      totalTokens = totalTokens usage, cost = cost usage,
      timestamp = f (timestamp usage),
      userId = userId usage, sessionId = sessionId usage, metadata = metadata usage\<rparr>"

definition mapLastUsed :: "('a \<Rightarrow> 'b) \<Rightarrow> 'a UserUsage \<Rightarrow> 'b UserUsage" where
  "mapLastUsed f userTotal =
     \<lparr>userUserId = userUserId userTotal, userTotalTokens = userTotalTokens userTotal,
      totalCost = totalCost userTotal, userCurrency = userCurrency userTotal,
      usageByModel = usageByModel userTotal, lastUsed = f (lastUsed userTotal)\<rparr>"

text \<open>
  \<^verbatim>\<open>load\<close>: no file and a corrupt file give \<^verbatim>\<open>null\<close>; otherwise the parsed document with
  every \<^verbatim>\<open>timestamp\<close> and every \<^verbatim>\<open>lastUsed\<close> turned into a \<^verbatim>\<open>Date\<close>. The source casts
  the parsed value to \<^verbatim>\<open>StorageData\<close> without a check; a document of another shape that
  parses is outside of the model.
\<close>

definition load :: "FileStorage \<Rightarrow> Date StorageData option" where
  "load fs =
     (case fileContent fs of
        NoFile \<Rightarrow> None
      | Corrupt \<Rightarrow> None
      | Json parsed \<Rightarrow>
          Some \<lparr>history = (\<lambda>user. map_option (map (mapTimestamp (newDate fs)))
                                       (history parsed user)),
                totals = (\<lambda>user. map_option (mapLastUsed (newDate fs)) (totals parsed user)),
                lastSaved = lastSaved parsed\<rparr>)"

text \<open>
  \<^verbatim>\<open>save\<close>, called at the time \<open>now\<close>: writes the document and returns \<^verbatim>\<open>true\<close>, or
  returns \<^verbatim>\<open>false\<close> when the write throws.
\<close>

definition save ::
  "Date \<Rightarrow> (string \<rightharpoonup> Date TokenUsage list) \<Rightarrow> (string \<rightharpoonup> Date UserUsage) \<Rightarrow> FileStorage
     \<Rightarrow> bool \<times> FileStorage" where
  "save now hist tots fs =
     (let data = \<lparr>history = (\<lambda>user. map_option (map (mapTimestamp (dateToJSON fs)))
                                           (hist user)),
                  totals = (\<lambda>user. map_option (mapLastUsed (dateToJSON fs)) (tots user)),
                  lastSaved = dateToJSON fs now\<rparr>
      in if writable fs then (True, fs\<lparr>fileContent := Json data\<rparr>) else (False, fs))"

subsection \<open>TokenTracker\<close>

text \<open>
  The state of a tracker. The clock and the random number generator are outside of it:
  every operation that reads the clock takes the time \<open>now\<close> as an argument (one reading
  for the whole call), and \<^verbatim>\<open>startTracking\<close> takes the random suffix of its id. Webhooks
  and the database placeholder have no effect on the state and are left out.
\<close>

record TokenTracker =
  config :: TrackerConfig
  usageHistory :: "string \<rightharpoonup> Date TokenUsage list"
  activeTracking :: "string \<rightharpoonup> Tracking"
  userTotals :: "string \<rightharpoonup> Date UserUsage"
  storage :: "FileStorage option"
  defaultUserId :: "string option"

definition loadFromStorage :: "TokenTracker \<Rightarrow> TokenTracker" where
  "loadFromStorage s =
     (case storage s of
        None \<Rightarrow> s
      | Some fs \<Rightarrow>
          (case load fs of
             None \<Rightarrow> s
           | Some data \<Rightarrow> s\<lparr>usageHistory := history data, userTotals := totals data\<rparr>))"

definition saveToStorage :: "Date \<Rightarrow> TokenTracker \<Rightarrow> TokenTracker" where
  "saveToStorage now s =
     (case storage s of
        None \<Rightarrow> s
      | Some fs \<Rightarrow> s\<lparr>storage := Some (snd (save now (usageHistory s) (userTotals s) fs))\<rparr>)"

text \<open>
  The constructor: the defaults of the configuration, then, unless file storage is switched
  off, a \<^verbatim>\<open>FileStorage\<close> (the argument \<open>fs\<close> stands for the object \<^verbatim>\<open>new FileStorage()\<close>
  and the file at its path) and the data loaded from it.
\<close>

definition newTokenTracker :: "TrackerConfig \<Rightarrow> FileStorage \<Rightarrow> TokenTracker" where
  "newTokenTracker cfg fs =
     (let merged =
            \<lparr>configCurrency = (case configCurrency cfg of None \<Rightarrow> Some USD | Some c \<Rightarrow> Some c),
             webhookUrl = webhookUrl cfg,
             saveToDatabase = (case saveToDatabase cfg of None \<Rightarrow> Some False | Some b \<Rightarrow> Some b),
             enableFileStorage =
               (case enableFileStorage cfg of None \<Rightarrow> Some True | Some b \<Rightarrow> Some b)\<rparr>;
          s = \<lparr>config = merged, usageHistory = Map.empty, activeTracking = Map.empty,
               userTotals = Map.empty, storage = None, defaultUserId = None\<rparr>
      in if enableFileStorage merged \<noteq> Some False
         then loadFromStorage (s\<lparr>storage := Some fs\<rparr>)
         else s)"

text \<open>The decimal digits of a natural number, as a template literal prints it.\<close>

fun showNat :: "nat \<Rightarrow> string" where
  "showNat n =
     (if n < 10 then [''0123456789'' ! n]
      else showNat (n div 10) @ [''0123456789'' ! (n mod 10)])"

definition showInt :: "int \<Rightarrow> string" where
  "showInt i = (if i < 0 then ''-'' @ showNat (nat (- i)) else showNat (nat i))"

text \<open>
  \<^verbatim>\<open>startTracking\<close>: \<open>now\<close> is \<^verbatim>\<open>Date.now()\<close>, \<open>rnd\<close> is
  \<^verbatim>\<open>Math.random().toString(36).substr(2, 9)\<close>. Returns the tracking id and the new state.
\<close>

definition startTracking ::
  "Date \<Rightarrow> string \<Rightarrow> string option \<Rightarrow> string option \<Rightarrow> TokenTracker
     \<Rightarrow> string \<times> TokenTracker" where
  "startTracking now rnd uid sid s =
     (let trackingId = ''track_'' @ showInt now @ ''_'' @ rnd
      in (trackingId,
          s\<lparr>activeTracking := (activeTracking s)(trackingId \<mapsto>
               \<lparr>trackingUserId = strOrUndefined uid (defaultUserId s),
                trackingSessionId = sid,
                startTime = now\<rparr>)\<rparr>))"

text \<open>The private method \<^verbatim>\<open>calculateCost\<close> of the tracker.\<close>

definition trackerCalculateCost ::
  "TokenTracker \<Rightarrow> string \<Rightarrow> string \<Rightarrow> rat \<Rightarrow> rat \<Rightarrow> error + Cost" where
  "trackerCalculateCost s prov mdl inTokens outTokens =
     (case calculateCost prov mdl inTokens outTokens of
        Inl e \<Rightarrow> Inl e
      | Inr costUSD \<Rightarrow>
          if configCurrency (config s) = Some KRW
          then Inr \<lparr>amount = costUSD * 1300, currency = KRW\<rparr>
          else Inr \<lparr>amount = costUSD, currency = USD\<rparr>)"

text \<open>The key of a usage in a breakdown: \<^verbatim>\<open>`${usage.provider}/${usage.model}`\<close>.\<close>

definition modelKey :: "'t TokenUsage \<Rightarrow> string" where
  "modelKey usage = provider usage @ ''/'' @ model usage"

text \<open>
  \<^verbatim>\<open>updateUserTotals\<close>, with the addition \<open>addNum\<close> of numbers (the four \<^verbatim>\<open>+=\<close>) as a
  parameter. The \<^verbatim>\<open>lastUsed: new Date()\<close> of a new total is overwritten by the time stamp
  of the usage three statements later, so the new total starts with that.
\<close>

definition updateUserTotalsWith ::
  "(rat \<Rightarrow> rat \<Rightarrow> rat) \<Rightarrow> string \<Rightarrow> Date TokenUsage \<Rightarrow> TokenTracker \<Rightarrow> TokenTracker" where
  "updateUserTotalsWith addNum uid usage s =
     (let userTotal0 =
            (case userTotals s uid of
               Some t \<Rightarrow> t
             | None \<Rightarrow>
                 \<lparr>userUserId = uid, userTotalTokens = 0, totalCost = 0,
                  userCurrency =
                    (case configCurrency (config s) of Some KRW \<Rightarrow> ''KRW'' | _ \<Rightarrow> ''USD''),
                  usageByModel = Map.empty, lastUsed = timestamp usage\<rparr>);
          userTotal1 = userTotal0
            \<lparr>userTotalTokens := addNum (userTotalTokens userTotal0) (totalTokens usage),
             totalCost := addNum (totalCost userTotal0) (amount (cost usage)),
             lastUsed := timestamp usage\<rparr>;
          byModel0 =
            (case usageByModel userTotal1 (modelKey usage) of
               Some m \<Rightarrow> m
             | None \<Rightarrow> \<lparr>tokens = 0, modelCost = 0\<rparr>);
          byModel1 = byModel0
            \<lparr>tokens := addNum (tokens byModel0) (totalTokens usage),
             modelCost := addNum (modelCost byModel0) (amount (cost usage))\<rparr>
      in s\<lparr>userTotals := (userTotals s)(uid \<mapsto>
             userTotal1\<lparr>usageByModel := (usageByModel userTotal1)(modelKey usage \<mapsto> byModel1)\<rparr>)\<rparr>)"

text \<open>\<^verbatim>\<open>recordUsage\<close>, with the addition of numbers as a parameter.\<close>

definition recordUsageWith ::
  "(rat \<Rightarrow> rat \<Rightarrow> rat) \<Rightarrow> Date \<Rightarrow> Date TokenUsage \<Rightarrow> TokenTracker \<Rightarrow> TokenTracker" where
  "recordUsageWith addNum now usage s =
     (let uid = strOr (userId usage) ''anonymous'';
          before = (case usageHistory s uid of None \<Rightarrow> [] | Some h \<Rightarrow> h);
          s1 = s\<lparr>usageHistory := (usageHistory s)(uid \<mapsto> before @ [usage])\<rparr>;
          s2 = updateUserTotalsWith addNum uid usage s1
      in saveToStorage now s2)"

text \<open>
  The two methods with exact addition, which is what the runtime computes as long as
  every sum is a double again, as in a first addition to zero. They serve the statements
  that are not about sums over several records.
\<close>

definition updateUserTotals :: "string \<Rightarrow> Date TokenUsage \<Rightarrow> TokenTracker \<Rightarrow> TokenTracker" where
  "updateUserTotals uid usage s = updateUserTotalsWith (+) uid usage s"

definition recordUsage :: "Date \<Rightarrow> Date TokenUsage \<Rightarrow> TokenTracker \<Rightarrow> TokenTracker" where
  "recordUsage now usage s = recordUsageWith (+) now usage s"

text \<open>
  The parts of \<^verbatim>\<open>endTracking\<close>. First the expression
  \<^verbatim>\<open>usage.cost || this.calculateCost(...)\<close>, then the object \<^verbatim>\<open>fullUsage\<close> for a given cost.
\<close>

definition usageCost :: "TokenTracker \<Rightarrow> PartialTokenUsage \<Rightarrow> error + Cost" where
  "usageCost s usage =
     (case optCost usage of
        Some c \<Rightarrow> Inr c
      | None \<Rightarrow>
          trackerCalculateCost s
            (strOr (optProvider usage) ''openai'')
            (strOr (optModel usage) ''unknown'')
            (numOr (optInputTokens usage) 0)
            (numOr (optOutputTokens usage) 0))"

definition fullUsage :: "Date \<Rightarrow> Tracking \<Rightarrow> PartialTokenUsage \<Rightarrow> Cost \<Rightarrow> Date TokenUsage" where
  "fullUsage now tracking usage c =
     \<lparr>provider = strOr (optProvider usage) ''openai'',
      model = strOr (optModel usage) ''unknown'',
      inputTokens = optInputTokens usage,
      outputTokens = optOutputTokens usage,
      totalTokens =
        numOr (optTotalTokens usage)
          (numOr (optInputTokens usage) 0 + numOr (optOutputTokens usage) 0),
      cost = c,
      timestamp = now,
      userId = trackingUserId tracking,
      sessionId = trackingSessionId tracking,
      metadata =
        Some ((case optMetadata usage of None \<Rightarrow> Map.empty | Some m \<Rightarrow> m)
                (''duration'' \<mapsto> JsNum (of_int (now - startTime tracking))))\<rparr>"

text \<open>
  \<^verbatim>\<open>endTracking\<close>: the error thrown, if any, and the state after the call. Both exits by
  an exception come before the first assignment.
\<close>

definition endTracking ::
  "Date \<Rightarrow> string \<Rightarrow> PartialTokenUsage \<Rightarrow> TokenTracker \<Rightarrow> error option \<times> TokenTracker" where
  "endTracking now trackingId usage s =
     (case activeTracking s trackingId of
        None \<Rightarrow> (Some (NotFound trackingId), s)
      | Some tracking \<Rightarrow>
          (case usageCost s usage of
             Inl e \<Rightarrow> (Some e, s)
           | Inr c \<Rightarrow>
               (let s1 = recordUsage now (fullUsage now tracking usage c) s
                in (None, s1\<lparr>activeTracking := (activeTracking s1)(trackingId := None)\<rparr>))))"

definition getUserUsage :: "TokenTracker \<Rightarrow> string \<Rightarrow> Date UserUsage option" where
  "getUserUsage s uid = userTotals s uid"

text \<open>
  \<^verbatim>\<open>Array.prototype.slice(start)\<close>: a negative start counts from the end; the start is
  clamped to the array.
\<close>

definition slice :: "'a list \<Rightarrow> int \<Rightarrow> 'a list" where
  "slice xs start =
     (if start < 0 then drop (nat (max (int (length xs) + start) 0)) xs
      else drop (nat (min start (int (length xs)))) xs)"

text \<open>\<^verbatim>\<open>getUserHistory(userId, limit)\<close>; the source's default for \<open>limit\<close> is 100.\<close>

definition getUserHistory :: "TokenTracker \<Rightarrow> string \<Rightarrow> int \<Rightarrow> Date TokenUsage list" where
  "getUserHistory s uid limit =
     slice (case usageHistory s uid of None \<Rightarrow> [] | Some h \<Rightarrow> h) (- limit)"

definition clearUserUsage :: "Date \<Rightarrow> string \<Rightarrow> TokenTracker \<Rightarrow> TokenTracker" where
  "clearUserUsage now uid s =
     saveToStorage now
       (s\<lparr>usageHistory := (usageHistory s)(uid := None),
          userTotals := (userTotals s)(uid := None)\<rparr>)"

subsection \<open>The cost comparison of the MCP server\<close>

text \<open>
  The curated models of \<^verbatim>\<open>compareCosts\<close>: provider, model and display name. The compiled
  handler \<^verbatim>\<open>compare_costs\<close> has the same five models under longer display names and uses
  the user \<^verbatim>\<open>_comparison\<close>; the costs it computes are the same.
\<close>

definition compareModels :: "(string \<times> string \<times> string) list" where
  "compareModels =
    [(''openai'', ''gpt-3.5-turbo'', ''GPT-3.5''),
     (''openai'', ''gpt-4'', ''GPT-4''),
     (''anthropic'', ''claude-3-haiku-20240307'', ''Claude Haiku''),
     (''anthropic'', ''claude-3-sonnet-20240229'', ''Claude Sonnet''),
     (''anthropic'', ''claude-3-opus-20240229'', ''Claude Opus'')]"

text \<open>
  The callback of \<^verbatim>\<open>models.map\<close> for one model: it tracks the tokens under the user
  \<^verbatim>\<open>_compare\<close>, reads the cost of the model key from that user's totals and clears the
  user again. \<open>now\<close> and \<open>rnd\<close> are the clock and the random suffix of this round.
\<close>

definition compareOne ::
  "rat \<Rightarrow> Date \<Rightarrow> string \<Rightarrow> string \<times> string \<times> string \<Rightarrow> TokenTracker
     \<Rightarrow> (error + string \<times> rat) \<times> TokenTracker" where
  "compareOne tokenCount now rnd entry s =
     (case entry of (prov, mdl, name) \<Rightarrow>
        (let (trackingId, s1) = startTracking now rnd (Some ''_compare'') None s;
             (err, s2) =
               endTracking now trackingId
                 \<lparr>optProvider = Some prov, optModel = Some mdl,
                  optInputTokens = Some (of_int \<lfloor>tokenCount / 2\<rfloor>),
                  optOutputTokens = Some (of_int \<lceil>tokenCount / 2\<rceil>),
                  optTotalTokens = Some tokenCount,
                  optCost = None, optMetadata = None\<rparr> s1
         in case err of
              Some e \<Rightarrow> (Inl e, s2)
            | None \<Rightarrow>
                (let usage = getUserUsage s2 ''_compare'';
                     c = numOr (case usage of
                                  None \<Rightarrow> None
                                | Some u \<Rightarrow> map_option modelCost
                                             (usageByModel u (prov @ ''/'' @ mdl))) 0
                 in (Inr (name, c), clearUserUsage now ''_compare'' s2))))"

text \<open>\<^verbatim>\<open>models.map\<close>: the rounds from left to right, round \<open>i\<close> with the readings \<open>env i\<close>.\<close>

fun compareMap ::
  "rat \<Rightarrow> (nat \<Rightarrow> Date \<times> string) \<Rightarrow> nat \<Rightarrow> (string \<times> string \<times> string) list \<Rightarrow> TokenTracker
     \<Rightarrow> (error + (string \<times> rat) list) \<times> TokenTracker" where
  "compareMap tokenCount env i [] s = (Inr [], s)"
| "compareMap tokenCount env i (entry # entries) s =
     (case compareOne tokenCount (fst (env i)) (snd (env i)) entry s of
        (Inl e, s1) \<Rightarrow> (Inl e, s1)
      | (Inr row, s1) \<Rightarrow>
          (case compareMap tokenCount env (Suc i) entries s1 of
             (Inl e, s2) \<Rightarrow> (Inl e, s2)
           | (Inr rows, s2) \<Rightarrow> (Inr (row # rows), s2)))"

text \<open>
  \<^verbatim>\<open>compareCosts\<close>: the rows sorted by \<^verbatim>\<open>(a, b) => a.cost - b.cost\<close>; the sort of an array
  is stable, as \<^term>\<open>sort_key\<close> is. The text built from the rows is left out.
\<close>

definition compareCosts ::
  "rat \<Rightarrow> (nat \<Rightarrow> Date \<times> string) \<Rightarrow> TokenTracker
     \<Rightarrow> (error + (string \<times> rat) list) \<times> TokenTracker" where
  "compareCosts tokenCount env s =
     (case compareMap tokenCount env 0 compareModels s of
        (Inl e, s1) \<Rightarrow> (Inl e, s1)
      | (Inr rows, s1) \<Rightarrow> (Inr (sort_key snd rows), s1))"

subsection \<open>Notions used in the statements\<close>

text \<open>No candidate of the list is a substring of the normalized model name.\<close>

definition matchesNone :: "string list \<Rightarrow> string \<Rightarrow> bool" where
  "matchesNone candidates normalizedModel =
     list_all (\<lambda>c. \<not> includesStr normalizedModel c) candidates"

definition nonnegRate :: "TokenRate \<Rightarrow> bool" where
  "nonnegRate p = (0 \<le> inputRate p \<and> 0 \<le> outputRate p)"

text \<open>The key of the user a usage is recorded under.\<close>

definition userKey :: "'t TokenUsage \<Rightarrow> string" where
  "userKey usage = strOr (userId usage) ''anonymous''"

text \<open>A sequence of \<^verbatim>\<open>recordUsage\<close> calls, each with the time of the call.\<close>

fun recordAll :: "(Date \<times> Date TokenUsage) list \<Rightarrow> TokenTracker \<Rightarrow> TokenTracker" where
  "recordAll [] s = s"
| "recordAll ((now, usage) # calls) s = recordAll calls (recordUsage now usage s)"

text \<open>
  The records of a user among those of a sequence, those with a model key, and the exact
  sum of the token counts of a sequence of records.
\<close>

definition recordsOf :: "string \<Rightarrow> 't TokenUsage list \<Rightarrow> 't TokenUsage list" where
  "recordsOf uid usages = filter (\<lambda>r. userKey r = uid) usages"

definition withModelKey :: "string \<Rightarrow> 't TokenUsage list \<Rightarrow> 't TokenUsage list" where
  "withModelKey k usages = filter (\<lambda>r. modelKey r = k) usages"

definition sumTokens :: "'t TokenUsage list \<Rightarrow> rat" where
  "sumTokens usages = sum_list (map totalTokens usages)"

text \<open>The sums across the entries of a breakdown.\<close>

definition breakdownTokens :: "'t UserUsage \<Rightarrow> rat" where
  "breakdownTokens t =
     (\<Sum>k \<in> dom (usageByModel t). case usageByModel t k of None \<Rightarrow> 0 | Some m \<Rightarrow> tokens m)"

definition breakdownCost :: "'t UserUsage \<Rightarrow> rat" where
  "breakdownCost t =
     (\<Sum>k \<in> dom (usageByModel t). case usageByModel t k of None \<Rightarrow> 0 | Some m \<Rightarrow> modelCost m)"

text \<open>The last record of a user's history, if there is one.\<close>

definition lastRecorded :: "TokenTracker \<Rightarrow> string \<Rightarrow> Date TokenUsage option" where
  "lastRecorded s uid =
     (case usageHistory s uid of
        None \<Rightarrow> None
      | Some h \<Rightarrow> if h = [] then None else Some (last h))"

text \<open>
  A normalized model name that the OpenAI branch prices by none of its rules: no image,
  audio or text-to-speech rule applies and no candidate of \<^term>\<open>gptModels\<close> matches.
\<close>

definition openaiUnmatched :: "string \<Rightarrow> bool" where
  "openaiUnmatched n =
     (\<not> startsWith n ''dall-e'' \<and> n \<noteq> ''whisper-1'' \<and> n \<noteq> ''tts-1'' \<and> n \<noteq> ''tts-1-hd''
      \<and> matchesNone gptModels n)"

text \<open>The costs of the rows of a comparison, in the order of the rows.\<close>

definition comparedCosts :: "(error + (string \<times> rat) list) \<times> TokenTracker \<Rightarrow> rat list" where
  "comparedCosts result = (case fst result of Inl e \<Rightarrow> [] | Inr rows \<Rightarrow> map snd rows)"

definition lastRecordedCost :: "TokenTracker \<Rightarrow> string \<Rightarrow> Cost option" where
  "lastRecordedCost s uid = map_option cost (lastRecorded s uid)"

text \<open>
  The total of a user after \<^verbatim>\<open>updateUserTotals\<close>, as a function of the total before
  (\<^term>\<open>None\<close> when the user had none).
\<close>

definition addUsage ::
  "TrackerConfig \<Rightarrow> string \<Rightarrow> Date TokenUsage \<Rightarrow> Date UserUsage option \<Rightarrow> Date UserUsage" where
  "addUsage cfg uid usage old =
     (let userTotal0 =
            (case old of
               Some t \<Rightarrow> t
             | None \<Rightarrow>
                 \<lparr>userUserId = uid, userTotalTokens = 0, totalCost = 0,
                  userCurrency = (case configCurrency cfg of Some KRW \<Rightarrow> ''KRW'' | _ \<Rightarrow> ''USD''),
                  usageByModel = Map.empty, lastUsed = timestamp usage\<rparr>);
          byModel0 =
            (case usageByModel userTotal0 (modelKey usage) of
               Some m \<Rightarrow> m
             | None \<Rightarrow> \<lparr>tokens = 0, modelCost = 0\<rparr>)
      in userTotal0
           \<lparr>userTotalTokens := userTotalTokens userTotal0 + totalTokens usage,
            totalCost := totalCost userTotal0 + amount (cost usage),
            lastUsed := timestamp usage,
            usageByModel := (usageByModel userTotal0)(modelKey usage \<mapsto>
              byModel0\<lparr>tokens := tokens byModel0 + totalTokens usage,
                       modelCost := modelCost byModel0 + amount (cost usage)\<rparr>)\<rparr>)"

text \<open>A sequence of \<^verbatim>\<open>recordUsage\<close> calls for a given addition of numbers.\<close>

fun recordAllWith ::
  "(rat \<Rightarrow> rat \<Rightarrow> rat) \<Rightarrow> (Date \<times> Date TokenUsage) list \<Rightarrow> TokenTracker \<Rightarrow> TokenTracker" where
  "recordAllWith addNum [] s = s"
| "recordAllWith addNum ((now, usage) # calls) s =
     recordAllWith addNum calls (recordUsageWith addNum now usage s)"

text \<open>
  The sum that repeated \<^verbatim>\<open>+=\<close> on a total starting at 0 computes: from left to right,
  \<open>addNum (addNum (addNum 0 x1) x2) x3\<close> and so on.
\<close>

definition leftSum :: "(rat \<Rightarrow> rat \<Rightarrow> rat) \<Rightarrow> rat list \<Rightarrow> rat" where
  "leftSum addNum xs = foldl addNum 0 xs"

definition leftSumTokens :: "(rat \<Rightarrow> rat \<Rightarrow> rat) \<Rightarrow> 't TokenUsage list \<Rightarrow> rat" where
  "leftSumTokens addNum usages = leftSum addNum (map totalTokens usages)"

definition leftSumCost :: "(rat \<Rightarrow> rat \<Rightarrow> rat) \<Rightarrow> 't TokenUsage list \<Rightarrow> rat" where
  "leftSumCost addNum usages = leftSum addNum (map (\<lambda>r. amount (cost r)) usages)"

text \<open>
  The left-to-right fold of a sequence of records of one user: the two totals, and an
  entry of the breakdown exactly for the model keys of the sequence, with the two
  left-to-right sums over the records with that key.
\<close>

definition isLeftFoldOf ::
  "(rat \<Rightarrow> rat \<Rightarrow> rat) \<Rightarrow> 't TokenUsage list \<Rightarrow> 'u UserUsage \<Rightarrow> bool" where
  "isLeftFoldOf addNum recs t =
     (userTotalTokens t = leftSumTokens addNum recs \<and> totalCost t = leftSumCost addNum recs \<and>
      (\<forall>k. usageByModel t k =
             (if withModelKey k recs = [] then None
              else Some \<lparr>tokens = leftSumTokens addNum (withModelKey k recs),
                         modelCost = leftSumCost addNum (withModelKey k recs)\<rparr>)))"

text \<open>
  An addition that is exact on natural numbers as long as the sum stays within \<open>bound\<close>,
  and a sequence of records whose token counts are natural numbers.
\<close>

definition exactUpTo :: "(rat \<Rightarrow> rat \<Rightarrow> rat) \<Rightarrow> nat \<Rightarrow> bool" where
  "exactUpTo addNum bound =
     (\<forall>a b :: nat. a + b \<le> bound \<longrightarrow> addNum (of_nat a) (of_nat b) = of_nat (a + b))"

definition naturalTokens :: "'t TokenUsage list \<Rightarrow> bool" where
  "naturalTokens usages = list_all (\<lambda>r. totalTokens r \<in> \<nat>) usages"

text \<open>
  The total of a user after \<^verbatim>\<open>updateUserTotals\<close> for a given addition, as a function of
  the total before.
\<close>

definition addUsageWith ::
  "(rat \<Rightarrow> rat \<Rightarrow> rat) \<Rightarrow> TrackerConfig \<Rightarrow> string \<Rightarrow> Date TokenUsage \<Rightarrow> Date UserUsage option
     \<Rightarrow> Date UserUsage" where
  "addUsageWith addNum cfg uid usage old =
     (let userTotal0 =
            (case old of
               Some t \<Rightarrow> t
             | None \<Rightarrow>
                 \<lparr>userUserId = uid, userTotalTokens = 0, totalCost = 0,
                  userCurrency = (case configCurrency cfg of Some KRW \<Rightarrow> ''KRW'' | _ \<Rightarrow> ''USD''),
                  usageByModel = Map.empty, lastUsed = timestamp usage\<rparr>);
          byModel0 =
            (case usageByModel userTotal0 (modelKey usage) of
               Some m \<Rightarrow> m
             | None \<Rightarrow> \<lparr>tokens = 0, modelCost = 0\<rparr>)
      in userTotal0
           \<lparr>userTotalTokens := addNum (userTotalTokens userTotal0) (totalTokens usage),
            totalCost := addNum (totalCost userTotal0) (amount (cost usage)),
            lastUsed := timestamp usage,
            usageByModel := (usageByModel userTotal0)(modelKey usage \<mapsto>
              byModel0\<lparr>tokens := addNum (tokens byModel0) (totalTokens usage),
                       modelCost := addNum (modelCost byModel0) (amount (cost usage))\<rparr>)\<rparr>)"

text \<open>
  What \<^verbatim>\<open>getUserUsage\<close> shows of a user: the two totals, the cost of the entry of a key,
  and the sum of the costs across the entries.
\<close>

definition totalTokensOf :: "TokenTracker \<Rightarrow> string \<Rightarrow> rat option" where
  "totalTokensOf s uid = map_option userTotalTokens (getUserUsage s uid)"

definition totalCostOf :: "TokenTracker \<Rightarrow> string \<Rightarrow> rat option" where
  "totalCostOf s uid = map_option totalCost (getUserUsage s uid)"

definition entryCostOf :: "TokenTracker \<Rightarrow> string \<Rightarrow> string \<Rightarrow> rat option" where
  "entryCostOf s uid k =
     (case getUserUsage s uid of
        None \<Rightarrow> None
      | Some t \<Rightarrow> map_option modelCost (usageByModel t k))"

definition breakdownCostOf :: "TokenTracker \<Rightarrow> string \<Rightarrow> rat option" where
  "breakdownCostOf s uid = map_option breakdownCost (getUserUsage s uid)"

subsection \<open>Example inputs\<close>

text \<open>
  A stand-in for the two date conversions of the runtime that are inverse to each other:
  the time value in unary, with a sign.
\<close>

definition exampleDateToJSON :: "Date \<Rightarrow> string" where
  "exampleDateToJSON t =
     (if t < 0 then CHR ''-'' # replicate (nat (- t)) CHR ''I'' else replicate (nat t) CHR ''I'')"

definition exampleNewDate :: "string \<Rightarrow> Date" where
  "exampleNewDate str =
     (case str of
        [] \<Rightarrow> 0
      | c # cs \<Rightarrow> if c = CHR ''-'' then - int (length cs) else int (length str))"

definition exampleStorage :: FileStorage where
  "exampleStorage =
     \<lparr>storagePath = ''sessions.json'', autoSave = True, fileContent = NoFile, writable = True,
      dateToJSON = exampleDateToJSON, newDate = exampleNewDate\<rparr>"

definition defaultConfig :: TrackerConfig where
  "defaultConfig =
     \<lparr>configCurrency = None, webhookUrl = None, saveToDatabase = None,
      enableFileStorage = None\<rparr>"

text \<open>A tracker without file storage.\<close>

definition memoryTracker :: TokenTracker where
  "memoryTracker = newTokenTracker (defaultConfig\<lparr>enableFileStorage := Some False\<rparr>) exampleStorage"

text \<open>Two usages, of the users \<^verbatim>\<open>alice\<close> and \<^verbatim>\<open>bob\<close>.\<close>

definition usageA :: "Date TokenUsage" where
  "usageA =
     \<lparr>provider = ''openai'', model = ''gpt-4'', inputTokens = Some 10, outputTokens = Some 20,
      totalTokens = 30, cost = \<lparr>amount = 3 / 2000, currency = USD\<rparr>, timestamp = 1000,
      userId = Some ''alice'', sessionId = None, metadata = None\<rparr>"

definition usageB :: "Date TokenUsage" where
  "usageB =
     \<lparr>provider = ''anthropic'', model = ''claude-3-opus-20240229'', inputTokens = Some 1000,
      outputTokens = None, totalTokens = 1000, cost = \<lparr>amount = 3 / 200, currency = USD\<rparr>,
      timestamp = 2000, userId = Some ''bob'', sessionId = Some ''s1'',
      metadata = Some [''error'' \<mapsto> JsBool True]\<rparr>"

text \<open>The tracker after the two usages have been recorded.\<close>

definition exampleTracker :: TokenTracker where
  "exampleTracker = recordAll [(1000, usageA), (2000, usageB)] memoryTracker"

text \<open>The argument of the worked example: 100 input and 50 output tokens of gpt-3.5-turbo.\<close>

definition workedUsage :: PartialTokenUsage where
  "workedUsage =
     \<lparr>optProvider = Some ''openai'', optModel = Some ''gpt-3.5-turbo'',
      optInputTokens = Some 100, optOutputTokens = Some 50, optTotalTokens = None,
      optCost = None, optMetadata = None\<rparr>"

text \<open>The example storage after the data of the example tracker have been saved.\<close>

definition savedStorage :: FileStorage where
  "savedStorage =
     snd (save 4000 (usageHistory exampleTracker) (userTotals exampleTracker) exampleStorage)"

text \<open>
  Usages of OpenAI models with given token counts and costs, and two sequences of calls.
  In the first, the costs are the doubles next to 0.1, 0.1, 0.1 and 0.045. In the second,
  the token counts are \<open>2 ^ 53\<close> and 1. The trackers add as the runtime does.
\<close>

definition usageOf :: "string \<Rightarrow> string \<Rightarrow> rat \<Rightarrow> rat \<Rightarrow> Date \<Rightarrow> Date TokenUsage" where
  "usageOf uid mdl n c time =
     \<lparr>provider = ''openai'', model = mdl, inputTokens = Some n, outputTokens = Some 0,
      totalTokens = n, cost = \<lparr>amount = c, currency = USD\<rparr>, timestamp = time,
      userId = Some uid, sessionId = None, metadata = None\<rparr>"

definition doubleCalls :: "(Date \<times> Date TokenUsage) list" where
  "doubleCalls =
     [(1000, usageOf ''alice'' ''gpt-4'' 30 (3602879701896397 / 36028797018963968) 1000),
      (1500, usageOf ''bob'' ''gpt-4'' 30 (3602879701896397 / 36028797018963968) 1500),
      (2000, usageOf ''alice'' ''gpt-3.5-turbo'' 30 (3602879701896397 / 36028797018963968) 2000),
      (3000, usageOf ''alice'' ''gpt-4'' 30 (3242591731706757 / 72057594037927936) 3000)]"

definition doubleTracker :: TokenTracker where
  "doubleTracker = recordAllWith doubleAdd doubleCalls memoryTracker"

definition largeCalls :: "(Date \<times> Date TokenUsage) list" where
  "largeCalls =
     [(1000, usageOf ''alice'' ''gpt-4'' 9007199254740992 0 1000),
      (2000, usageOf ''alice'' ''gpt-4'' 1 0 2000)]"

definition largeTracker :: TokenTracker where
  "largeTracker = recordAllWith doubleAdd largeCalls memoryTracker"

text \<open>Clock readings and random suffixes for the rounds of a cost comparison.\<close>

definition exampleEnv :: "nat \<Rightarrow> Date \<times> string" where
  "exampleEnv i = (5 + int i, ''k3x9q1z0a'')"

text \<open>A usage that gives a model and the two counts, and nothing else.\<close>

definition countsUsage :: PartialTokenUsage where
  "countsUsage =
     \<lparr>optProvider = None, optModel = Some ''gpt-4'',
      optInputTokens = Some 100, optOutputTokens = Some 50, optTotalTokens = None,
      optCost = None, optMetadata = None\<rparr>"

text \<open>Trackers with a tracking session started: the example tracker, and one that counts in KRW.\<close>

definition startedTracker :: TokenTracker where
  "startedTracker = snd (startTracking 5 ''k3x9q1z0a'' (Some ''alice'') None exampleTracker)"

definition krwTracker :: TokenTracker where
  "krwTracker =
     newTokenTracker (defaultConfig\<lparr>configCurrency := Some KRW, enableFileStorage := Some False\<rparr>)
       exampleStorage"

definition krwStarted :: TokenTracker where
  "krwStarted = snd (startTracking 5 ''k3x9q1z0a'' None None krwTracker)"

section \<open>Properties of the cost calculation\<close>

lemma perTokenCost_nonneg:
  "nonnegRate p \<Longrightarrow> 0 \<le> i \<Longrightarrow> 0 \<le> out \<Longrightarrow> 0 \<le> perTokenCost p i out"
  by (simp add: perTokenCost_def nonnegRate_def)

lemma PRICING_openai_nonneg:
  "map_of PRICING_openai k = Some (PerToken p) \<Longrightarrow> nonnegRate p"
  by (auto simp: PRICING_openai_def rate_def nonnegRate_def split: if_splits)

lemma PRICING_anthropic_nonneg: "list_all (\<lambda>(k, p). nonnegRate p) PRICING_anthropic"
  by (simp add: PRICING_anthropic_def rate_def nonnegRate_def)

lemma PRICING_gemini_nonneg: "list_all (\<lambda>(k, p). nonnegRate p) PRICING_gemini"
  by (simp add: PRICING_gemini_def rate_def nonnegRate_def)

lemma table_nonneg:
  "list_all (\<lambda>(k, p). nonnegRate p) pricing \<Longrightarrow> map_of pricing k = Some p \<Longrightarrow> nonnegRate p"
  by (auto simp: list_all_iff dest!: map_of_SomeD)

lemma default_entries:
  "map_of PRICING_openai ''gpt-3.5-turbo'' = Some (PerToken (rate 0.0005 0.0015))"
  "map_of PRICING_openai ''dall-e-3'' =
     Some (DallE3 \<lparr>size_1024x1024 = 0.040, size_1024x1792 = 0.080, size_1792x1024 = 0.080\<rparr>
               \<lparr>size_1024x1024 = 0.080, size_1024x1792 = 0.120, size_1792x1024 = 0.120\<rparr>)"
  "map_of PRICING_openai ''whisper-1'' = Some (PerMinute 0.006)"
  "map_of PRICING_anthropic ''claude-3-sonnet-20240229'' = Some (rate 0.003 0.015)"
  "map_of PRICING_gemini ''gemini-1.5-flash'' = Some (rate 0.000075 0.0003)"
  by (simp_all add: PRICING_openai_def PRICING_anthropic_def PRICING_gemini_def)

lemma whisperCost_eq:
  "whisperCost n i = (if n = ''whisper-1'' then Some ((i / 60) * 0.006) else None)"
  by (simp add: whisperCost_def default_entries)

lemma ttsCost_cases:
  "ttsCost n i =
     (if n = ''tts-1'' then Some (i * 0.000015)
      else if n = ''tts-1-hd'' then Some (i * 0.000030) else None)"
  by (simp add: ttsCost_def PRICING_openai_def)

lemma openaiLoop_nonneg:
  "openaiLoop cs n i out = Some c \<Longrightarrow> 0 \<le> i \<Longrightarrow> 0 \<le> out \<Longrightarrow> 0 \<le> c"
proof (induction cs)
  case Nil
  then show ?case by simp
next
  case (Cons g gs)
  then show ?case
    by (auto split: if_splits option.splits OpenAIEntry.splits
             dest!: PRICING_openai_nonneg intro: perTokenCost_nonneg)
qed

lemma tokenLoop_nonneg:
  "list_all (\<lambda>(k, p). nonnegRate p) pricing \<Longrightarrow> tokenLoop pricing key cs n i out = Some c
     \<Longrightarrow> 0 \<le> i \<Longrightarrow> 0 \<le> out \<Longrightarrow> 0 \<le> c"
proof (induction cs)
  case Nil
  then show ?case by simp
next
  case (Cons g gs)
  then show ?case
    by (auto split: if_splits option.splits intro: perTokenCost_nonneg dest: table_nonneg)
qed

lemma tokenLoop_matchesNone:
  "matchesNone cs n \<Longrightarrow> tokenLoop pricing key cs n i out = None"
  by (induction cs) (auto simp: matchesNone_def)

lemma openaiLoop_matchesNone:
  "matchesNone cs n \<Longrightarrow> openaiLoop cs n i out = None"
  by (induction cs) (auto simp: matchesNone_def)

lemma openaiCost_Some: "openaiCost n i out \<noteq> None"
proof (cases "startsWith n ''dall-e''")
  case True
  then show ?thesis by (simp add: openaiCost_def default_entries del: not_None_eq)
next
  case False
  then show ?thesis
    by (cases "whisperCost n i"; cases "ttsCost n i"; cases "openaiLoop gptModels n i out")
       (simp_all add: openaiCost_def default_entries del: not_None_eq)
qed

lemma openaiCost_nonneg:
  assumes "openaiCost n i out = Some c" and "0 \<le> i" and "0 \<le> out"
  shows "0 \<le> c"
proof (cases "startsWith n ''dall-e''")
  case True
  with assms show ?thesis by (auto simp: openaiCost_def default_entries)
next
  case dalle: False
  show ?thesis
  proof (cases "whisperCost n i")
    case (Some w)
    with dalle assms show ?thesis
      by (auto simp: openaiCost_def whisperCost_eq split: if_splits)
  next
    case whisper: None
    show ?thesis
    proof (cases "ttsCost n i")
      case (Some t)
      with dalle whisper assms show ?thesis
        by (auto simp: openaiCost_def ttsCost_cases split: if_splits)
    next
      case tts: None
      show ?thesis
      proof (cases "openaiLoop gptModels n i out")
        case (Some l)
        with dalle whisper tts assms(1) have "l = c" by (simp add: openaiCost_def)
        with Some assms(2,3) show ?thesis by (auto dest: openaiLoop_nonneg)
      next
        case None
        with dalle whisper tts assms show ?thesis
          by (auto simp: openaiCost_def default_entries perTokenCost_def rate_def)
      qed
    qed
  qed
qed

lemma tokenProviderCost_nonneg:
  assumes "list_all (\<lambda>(k, p). nonnegRate p) pricing"
    and "tokenProviderCost pricing key cs d n i out = Inr c" and "0 \<le> i" and "0 \<le> out"
  shows "0 \<le> c"
proof (cases "tokenLoop pricing key cs n i out")
  case None
  with assms(2) obtain p where "map_of pricing d = Some p" and "c = perTokenCost p i out"
    by (auto simp: tokenProviderCost_def split: option.splits)
  with assms(1,3,4) show ?thesis by (auto intro: perTokenCost_nonneg dest: table_nonneg)
next
  case (Some c')
  with assms(2) have "c' = c" by (simp add: tokenProviderCost_def)
  with Some assms(1,3,4) show ?thesis by (auto dest: tokenLoop_nonneg)
qed

lemma tokenProviderCost_Inr:
  "map_of pricing d \<noteq> None \<Longrightarrow> \<exists>c. tokenProviderCost pricing key cs d n i out = Inr c"
  by (auto simp: tokenProviderCost_def split: option.splits)

lemma calculateCost_Inr: "\<exists>c. calculateCost p m i out = Inr c"
proof -
  have a: "\<exists>c. tokenProviderCost PRICING_anthropic anthropicPricingKey claudeModels
                 ''claude-3-sonnet-20240229'' (normalizeModelName m) i out = Inr c"
    by (rule tokenProviderCost_Inr) (simp add: default_entries)
  have g: "\<exists>c. tokenProviderCost PRICING_gemini geminiPricingKey geminiModels
                 ''gemini-1.5-flash'' (normalizeModelName m) i out = Inr c"
    by (rule tokenProviderCost_Inr) (simp add: default_entries)
  show ?thesis
    using a g openaiCost_Some [of "normalizeModelName m" i out]
    by (auto simp: calculateCost_def Let_def)
qed

lemma calculateCost_nonneg:
  assumes "calculateCost p m i out = Inr c" and "0 \<le> i" and "0 \<le> out"
  shows "0 \<le> c"
proof -
  consider (openai) "p = ''openai''" | (anthropic) "p = ''anthropic''" | (gemini) "p = ''gemini''"
    | (unknown) "p \<noteq> ''openai''" "p \<noteq> ''anthropic''" "p \<noteq> ''gemini''"
    by blast
  then show ?thesis
  proof cases
    case openai
    with assms(1) openaiCost_Some [of "normalizeModelName m" i out]
    have "openaiCost (normalizeModelName m) i out = Some c"
      by (auto simp: calculateCost_def Let_def)
    then show ?thesis using assms(2,3) by (rule openaiCost_nonneg)
  next
    case anthropic
    with assms(1) have "tokenProviderCost PRICING_anthropic anthropicPricingKey claudeModels
                 ''claude-3-sonnet-20240229'' (normalizeModelName m) i out = Inr c"
      by (simp add: calculateCost_def Let_def)
    with PRICING_anthropic_nonneg show ?thesis
      using assms(2,3) by (rule tokenProviderCost_nonneg)
  next
    case gemini
    with assms(1) have "tokenProviderCost PRICING_gemini geminiPricingKey geminiModels
                 ''gemini-1.5-flash'' (normalizeModelName m) i out = Inr c"
      by (simp add: calculateCost_def Let_def)
    with PRICING_gemini_nonneg show ?thesis
      using assms(2,3) by (rule tokenProviderCost_nonneg)
  next
    case unknown
    with assms show ?thesis
      by (auto simp: calculateCost_def Let_def unknownProviderCost_def)
  qed
qed

lemma normalize_free:
  "normalizeModelName ''gemini-2.0-flash-exp'' = ''gemini-2-0-flash-exp''"
  "normalizeModelName ''gemini-2-0-flash-exp'' = ''gemini-2-0-flash-exp''"
  "normalizeModelName ''gemini-2.0-flash-thinking-exp-1219'' = ''gemini-2-0-flash-thinking-exp-1219''"
  "normalizeModelName ''gemini-2-0-flash-thinking-exp-1219'' = ''gemini-2-0-flash-thinking-exp-1219''"
  by (simp_all add: normalizeModelName.simps isDigit_def)

lemma includes_free:
  "includesStr ''gemini-2-0-flash-exp'' ''gemini-2-0-flash-exp''"
  "\<not> includesStr ''gemini-2-0-flash-thinking-exp-1219'' ''gemini-2-0-flash-exp''"
  "includesStr ''gemini-2-0-flash-thinking-exp-1219'' ''gemini-2-0-flash-thinking-exp-1219''"
  by simp_all

lemma calculateCost_gemini:
  "calculateCost ''gemini'' m i out =
     tokenProviderCost PRICING_gemini geminiPricingKey geminiModels ''gemini-1.5-flash''
       (normalizeModelName m) i out"
  by (simp add: calculateCost_def Let_def)

lemma calculateCost_anthropic:
  "calculateCost ''anthropic'' m i out =
     tokenProviderCost PRICING_anthropic anthropicPricingKey claudeModels
       ''claude-3-sonnet-20240229'' (normalizeModelName m) i out"
  by (simp add: calculateCost_def Let_def)

lemma free_loops:
  "tokenLoop PRICING_gemini geminiPricingKey geminiModels ''gemini-2-0-flash-exp'' i out = Some 0"
  "tokenLoop PRICING_gemini geminiPricingKey geminiModels ''gemini-2-0-flash-thinking-exp-1219'' i out = Some 0"
  by (simp_all add: geminiModels_def includes_free geminiPricingKey_def PRICING_gemini_def perTokenCost_def rate_def)

text \<open>
  Claim C9. The experimental Gemini models, free during their preview, cost nothing: for
  \<^verbatim>\<open>gemini-2.0-flash-exp\<close> and \<^verbatim>\<open>gemini-2.0-flash-thinking-exp-1219\<close>, in the dotted and in the
  dashed spelling, \<^verbatim>\<open>calculateCost\<close> returns 0 for all token counts.
\<close>

theorem gemini_free_models_cost_zero:
  "calculateCost ''gemini'' ''gemini-2.0-flash-exp'' i out = Inr 0
   \<and> calculateCost ''gemini'' ''gemini-2-0-flash-exp'' i out = Inr 0
   \<and> calculateCost ''gemini'' ''gemini-2.0-flash-thinking-exp-1219'' i out = Inr 0
   \<and> calculateCost ''gemini'' ''gemini-2-0-flash-thinking-exp-1219'' i out = Inr 0"
  by (simp add: calculateCost_gemini normalize_free tokenProviderCost_def free_loops)

lemma calculateCost_openai:
  "calculateCost ''openai'' m i out =
     (case openaiCost (normalizeModelName m) i out of
        Some c \<Rightarrow> Inr c
      | None \<Rightarrow> Inr (unknownProviderCost i out))"
  by (simp add: calculateCost_def Let_def)

lemma openai_default:
  assumes "openaiUnmatched (normalizeModelName m)"
  shows "calculateCost ''openai'' m i out = Inr ((i / 1000) * 0.0005 + (out / 1000) * 0.0015)"
  using assms
  by (simp add: calculateCost_openai openaiCost_def openaiUnmatched_def whisperCost_eq ttsCost_cases
        openaiLoop_matchesNone default_entries perTokenCost_def rate_def)

lemma anthropic_default:
  assumes "matchesNone claudeModels (normalizeModelName m)"
  shows "calculateCost ''anthropic'' m i out = Inr ((i / 1000) * 0.003 + (out / 1000) * 0.015)"
  using assms
  by (simp add: calculateCost_anthropic tokenProviderCost_def tokenLoop_matchesNone default_entries
        perTokenCost_def rate_def)

lemma gemini_default:
  assumes "matchesNone geminiModels (normalizeModelName m)"
  shows "calculateCost ''gemini'' m i out = Inr ((i / 1000) * 0.000075 + (out / 1000) * 0.0003)"
  using assms
  by (simp add: calculateCost_gemini tokenProviderCost_def tokenLoop_matchesNone default_entries
        perTokenCost_def rate_def)

lemma unknown_provider:
  assumes "p \<noteq> ''openai''" "p \<noteq> ''anthropic''" "p \<noteq> ''gemini''"
  shows "calculateCost p m i out = Inr ((i + out) * 0.001)"
  using assms by (simp add: calculateCost_def unknownProviderCost_def)

lemma normalize_defaults:
  "normalizeModelName ''gpt-3.5-turbo'' = ''gpt-3-5-turbo''"
  "normalizeModelName ''claude-3-sonnet-20240229'' = ''claude-3-sonnet-20240229''"
  "normalizeModelName ''gemini-1.5-flash'' = ''gemini-1-5-flash''"
  "normalizeModelName ''my-model'' = ''my-model''"
  by (simp_all add: normalizeModelName.simps isDigit_def)

lemma unmatched_example:
  "openaiUnmatched ''my-model''"
  "matchesNone claudeModels ''my-model''"
  "matchesNone geminiModels ''my-model''"
  by (simp_all add: openaiUnmatched_def matchesNone_def gptModels_def claudeModels_def geminiModels_def)


lemma default_models:
  "calculateCost ''openai'' ''gpt-3.5-turbo'' i out = Inr ((i / 1000) * 0.0005 + (out / 1000) * 0.0015)"
  "calculateCost ''anthropic'' ''claude-3-sonnet-20240229'' i out = Inr ((i / 1000) * 0.003 + (out / 1000) * 0.015)"
  "calculateCost ''gemini'' ''gemini-1.5-flash'' i out = Inr ((i / 1000) * 0.000075 + (out / 1000) * 0.0003)"
proof -
  show "calculateCost ''openai'' ''gpt-3.5-turbo'' i out = Inr ((i / 1000) * 0.0005 + (out / 1000) * 0.0015)"
    by (simp add: calculateCost_openai normalize_defaults openaiCost_def whisperCost_eq
          ttsCost_cases gptModels_def openaiPricingKey_def PRICING_openai_def perTokenCost_def
          rate_def)
  show "calculateCost ''anthropic'' ''claude-3-sonnet-20240229'' i out = Inr ((i / 1000) * 0.003 + (out / 1000) * 0.015)"
    by (simp add: calculateCost_anthropic normalize_defaults tokenProviderCost_def claudeModels_def
          anthropicPricingKey_def PRICING_anthropic_def perTokenCost_def rate_def)
  show "calculateCost ''gemini'' ''gemini-1.5-flash'' i out = Inr ((i / 1000) * 0.000075 + (out / 1000) * 0.0003)"
    by (simp add: calculateCost_gemini normalize_defaults tokenProviderCost_def geminiModels_def
          geminiPricingKey_def PRICING_gemini_def perTokenCost_def rate_def)
qed

text \<open>
  Claim C5. \<^verbatim>\<open>calculateCost\<close> returns a number for every provider, model and pair of
  counts, without throwing, and the number is not negative when the counts are not. A
  model name that no rule of its provider matches costs what the provider's default entry
  costs: \<^verbatim>\<open>gpt-3.5-turbo\<close> for openai, \<^verbatim>\<open>claude-3-sonnet-20240229\<close> for anthropic,
  \<^verbatim>\<open>gemini-1.5-flash\<close> for gemini. For every other provider the cost is
  \<^verbatim>\<open>(inputTokens + outputTokens) * 0.001\<close>.
\<close>

theorem calculateCost_total_nonneg_fallback:
  "(\<exists>c. calculateCost p m i out = Inr c \<and> (0 \<le> i \<and> 0 \<le> out \<longrightarrow> 0 \<le> c))
   \<and> (openaiUnmatched (normalizeModelName m) \<longrightarrow>
        calculateCost ''openai'' m i out = calculateCost ''openai'' ''gpt-3.5-turbo'' i out
        \<and> calculateCost ''openai'' m i out = Inr ((i / 1000) * 0.0005 + (out / 1000) * 0.0015))
   \<and> (matchesNone claudeModels (normalizeModelName m) \<longrightarrow>
        calculateCost ''anthropic'' m i out
          = calculateCost ''anthropic'' ''claude-3-sonnet-20240229'' i out
        \<and> calculateCost ''anthropic'' m i out = Inr ((i / 1000) * 0.003 + (out / 1000) * 0.015))
   \<and> (matchesNone geminiModels (normalizeModelName m) \<longrightarrow>
        calculateCost ''gemini'' m i out = calculateCost ''gemini'' ''gemini-1.5-flash'' i out
        \<and> calculateCost ''gemini'' m i out = Inr ((i / 1000) * 0.000075 + (out / 1000) * 0.0003))
   \<and> (p \<noteq> ''openai'' \<and> p \<noteq> ''anthropic'' \<and> p \<noteq> ''gemini'' \<longrightarrow>
        calculateCost p m i out = Inr ((i + out) * 0.001))"
proof -
  obtain c where c: "calculateCost p m i out = Inr c"
    using calculateCost_Inr by blast
  have "0 \<le> i \<and> 0 \<le> out \<longrightarrow> 0 \<le> c"
    using c calculateCost_nonneg by blast
  with c have total: "\<exists>c. calculateCost p m i out = Inr c \<and> (0 \<le> i \<and> 0 \<le> out \<longrightarrow> 0 \<le> c)"
    by blast
  show ?thesis
    using total openai_default [of m i out] anthropic_default [of m i out]
      gemini_default [of m i out] unknown_provider [of p m i out]
    by (simp add: default_models)
qed

theorem calculateCost_total_nonneg_fallback_witness:
  "calculateCost ''mistral'' ''my-model'' 100 50 = Inr (3 / 20) \<and> (0::rat) \<le> 3 / 20
   \<and> openaiUnmatched (normalizeModelName ''my-model'')
   \<and> calculateCost ''openai'' ''my-model'' 100 50 = Inr (1 / 8000)
   \<and> matchesNone claudeModels (normalizeModelName ''my-model'')
   \<and> calculateCost ''anthropic'' ''my-model'' 100 50 = Inr (21 / 20000)
   \<and> matchesNone geminiModels (normalizeModelName ''my-model'')
   \<and> calculateCost ''gemini'' ''my-model'' 100 50 = Inr (9 / 400000)"
  using calculateCost_total_nonneg_fallback [of "''mistral''" "''my-model''" 100 50]
  by (auto simp add: normalize_defaults unmatched_example)

section \<open>Properties of the tracker\<close>

lemma saveToStorage_fields [simp]:
  "usageHistory (saveToStorage now s) = usageHistory s"
  "userTotals (saveToStorage now s) = userTotals s"
  "activeTracking (saveToStorage now s) = activeTracking s"
  "config (saveToStorage now s) = config s"
  "defaultUserId (saveToStorage now s) = defaultUserId s"
  by (simp_all add: saveToStorage_def split: option.split)

lemma updateUserTotals_fields [simp]:
  "usageHistory (updateUserTotals uid usage s) = usageHistory s"
  "activeTracking (updateUserTotals uid usage s) = activeTracking s"
  "config (updateUserTotals uid usage s) = config s"
  "defaultUserId (updateUserTotals uid usage s) = defaultUserId s"
  "storage (updateUserTotals uid usage s) = storage s"
  by (simp_all add: updateUserTotals_def updateUserTotalsWith_def Let_def)

lemma updateUserTotals_eq:
  "updateUserTotals uid usage s =
     s\<lparr>userTotals := (userTotals s)(uid \<mapsto> addUsage (config s) uid usage (userTotals s uid))\<rparr>"
  by (simp add: updateUserTotals_def updateUserTotalsWith_def addUsage_def Let_def
        split: option.split)

lemma recordUsage_fields [simp]:
  "activeTracking (recordUsage now usage s) = activeTracking s"
  "config (recordUsage now usage s) = config s"
  "defaultUserId (recordUsage now usage s) = defaultUserId s"
  by (simp_all add: recordUsage_def recordUsageWith_def updateUserTotalsWith_def Let_def)

lemma recordUsage_history:
  "usageHistory (recordUsage now usage s) =
     (usageHistory s)(userKey usage \<mapsto>
        (case usageHistory s (userKey usage) of None \<Rightarrow> [] | Some h \<Rightarrow> h) @ [usage])"
  by (simp add: recordUsage_def recordUsageWith_def updateUserTotalsWith_def Let_def
        userKey_def)

lemma recordUsage_totals:
  "userTotals (recordUsage now usage s) =
     (userTotals s)(userKey usage \<mapsto>
        addUsage (config s) (userKey usage) usage (userTotals s (userKey usage)))"
  by (simp add: recordUsage_def recordUsageWith_def Let_def userKey_def
        updateUserTotals_eq [unfolded updateUserTotals_def])

lemma lastRecorded_recordUsage:
  "lastRecorded (recordUsage now usage s) (userKey usage) = Some usage"
  by (simp add: lastRecorded_def recordUsage_history)

lemma clearUserUsage_fields [simp]:
  "usageHistory (clearUserUsage now uid s) = (usageHistory s)(uid := None)"
  "userTotals (clearUserUsage now uid s) = (userTotals s)(uid := None)"
  "activeTracking (clearUserUsage now uid s) = activeTracking s"
  "config (clearUserUsage now uid s) = config s"
  "defaultUserId (clearUserUsage now uid s) = defaultUserId s"
  by (simp_all add: clearUserUsage_def)

lemma slice_Nil [simp]: "slice [] start = []"
  by (simp add: slice_def)

lemma memoryTracker_fields [simp]:
  "usageHistory memoryTracker = Map.empty"
  "userTotals memoryTracker = Map.empty"
  "activeTracking memoryTracker = Map.empty"
  "storage memoryTracker = None"
  "defaultUserId memoryTracker = None"
  "configCurrency (config memoryTracker) = Some USD"
  by (simp_all add: memoryTracker_def newTokenTracker_def defaultConfig_def Let_def)

lemma userKey_examples [simp]: "userKey usageA = ''alice''" "userKey usageB = ''bob''"
  by (simp_all add: userKey_def usageA_def usageB_def strOr_def)

lemma exampleTracker_history:
  "usageHistory exampleTracker = [''alice'' \<mapsto> [usageA], ''bob'' \<mapsto> [usageB]]"
  by (simp add: exampleTracker_def recordUsage_history)

text \<open>
  Claim C8. \<^verbatim>\<open>clearUserUsage(u)\<close> is scoped to the user: afterwards \<^verbatim>\<open>getUserUsage(u)\<close> is
  \<^verbatim>\<open>null\<close> and \<^verbatim>\<open>getUserHistory(u)\<close> is empty, and for every other user both answers are
  what they were before.
\<close>

theorem clearUserUsage_user_scoped:
  "getUserUsage (clearUserUsage now u s) u = None
   \<and> getUserHistory (clearUserUsage now u s) u limit = []
   \<and> (v \<noteq> u \<longrightarrow>
        getUserUsage (clearUserUsage now u s) v = getUserUsage s v
        \<and> getUserHistory (clearUserUsage now u s) v limit = getUserHistory s v limit)"
  by (simp add: getUserUsage_def getUserHistory_def)


theorem clearUserUsage_user_scoped_witness:
  "getUserUsage (clearUserUsage 3000 ''alice'' exampleTracker) ''alice'' = None
   \<and> getUserHistory (clearUserUsage 3000 ''alice'' exampleTracker) ''alice'' 100 = []
   \<and> ''bob'' \<noteq> ''alice''
   \<and> getUserUsage (clearUserUsage 3000 ''alice'' exampleTracker) ''bob''
       = getUserUsage exampleTracker ''bob''
   \<and> getUserHistory (clearUserUsage 3000 ''alice'' exampleTracker) ''bob'' 100 = [usageB]
   \<and> getUserHistory exampleTracker ''alice'' 100 = [usageA]"
  using clearUserUsage_user_scoped [of 3000 "''alice''" exampleTracker 100 "''bob''"]
  by (simp add: getUserHistory_def exampleTracker_history slice_def)

lemma trackerCalculateCost_Inr: "\<exists>c. trackerCalculateCost s p m i out = Inr c"
  using calculateCost_Inr [of p m i out] by (auto simp: trackerCalculateCost_def)

lemma usageCost_Inr: "\<exists>c. usageCost s usage = Inr c"
  using trackerCalculateCost_Inr by (simp add: usageCost_def split: option.split)

lemma endTracking_inactive:
  "activeTracking s tid = None \<Longrightarrow> endTracking now tid usage s = (Some (NotFound tid), s)"
  by (simp add: endTracking_def)

lemma endTracking_active:
  assumes "activeTracking s tid = Some tr" and "usageCost s usage = Inr c"
  shows "endTracking now tid usage s =
           (None, (recordUsage now (fullUsage now tr usage c) s)
                    \<lparr>activeTracking := (activeTracking s)(tid := None)\<rparr>)"
  using assms by (simp add: endTracking_def Let_def)

lemma startTracking_active:
  "activeTracking (snd (startTracking now rnd uid sid s)) (fst (startTracking now rnd uid sid s))
     = Some \<lparr>trackingUserId = strOrUndefined uid (defaultUserId s), trackingSessionId = sid,
             startTime = now\<rparr>"
  by (simp add: startTracking_def Let_def)

lemma startTracking_fields [simp]:
  "usageHistory (snd (startTracking now rnd uid sid s)) = usageHistory s"
  "userTotals (snd (startTracking now rnd uid sid s)) = userTotals s"
  "config (snd (startTracking now rnd uid sid s)) = config s"
  "storage (snd (startTracking now rnd uid sid s)) = storage s"
  "defaultUserId (snd (startTracking now rnd uid sid s)) = defaultUserId s"
  by (simp_all add: startTracking_def Let_def)

text \<open>
  Claim C4. A tracking id is completed at most once: the first \<^verbatim>\<open>endTracking\<close> with an id
  that \<^verbatim>\<open>startTracking\<close> returned succeeds and removes the id; the second throws the error
  for an unknown tracking id and leaves the whole state of the tracker, its history and
  totals included, as it was. The same holds for every id that is not active.
\<close>

theorem endTracking_at_most_once:
  "(case startTracking now0 rnd uid sid s of
      (tid, s1) \<Rightarrow>
        (case endTracking now1 tid usage1 s1 of
           (e1, s2) \<Rightarrow>
             e1 = None \<and> activeTracking s2 tid = None
             \<and> endTracking now2 tid usage2 s2 = (Some (NotFound tid), s2)))
   \<and> (activeTracking s tid' = None \<longrightarrow>
        endTracking now2 tid' usage2 s = (Some (NotFound tid'), s))"
proof -
  obtain tid s1 where start: "startTracking now0 rnd uid sid s = (tid, s1)"
    by (cases "startTracking now0 rnd uid sid s")
  obtain tr where active: "activeTracking s1 tid = Some tr"
    using startTracking_active [of now0 rnd uid sid s] start by simp
  obtain c where c: "usageCost s1 usage1 = Inr c"
    using usageCost_Inr by blast
  obtain e1 s2 where end1: "endTracking now1 tid usage1 s1 = (e1, s2)"
    by (cases "endTracking now1 tid usage1 s1")
  from endTracking_active [OF active c, of now1] end1
  have "e1 = None" and "activeTracking s2 tid = None" by auto
  moreover from this have "endTracking now2 tid usage2 s2 = (Some (NotFound tid), s2)"
    by (simp add: endTracking_inactive)
  ultimately show ?thesis
    using start end1 by (simp add: endTracking_inactive)
qed

theorem endTracking_at_most_once_witness:
  "(case startTracking 5 ''k3x9q1z0a'' (Some ''alice'') None exampleTracker of
      (tid, s1) \<Rightarrow>
        (case endTracking 9 tid workedUsage s1 of
           (e1, s2) \<Rightarrow>
             tid = ''track_5_k3x9q1z0a'' \<and> e1 = None \<and> activeTracking s2 tid = None
             \<and> endTracking 12 tid workedUsage s2 = (Some (NotFound tid), s2)))
   \<and> activeTracking exampleTracker ''track_0_unknown'' = None
   \<and> endTracking 12 ''track_0_unknown'' workedUsage exampleTracker
       = (Some (NotFound ''track_0_unknown''), exampleTracker)"
proof -
  have inactive: "activeTracking exampleTracker ''track_0_unknown'' = None"
    by (simp add: exampleTracker_def)
  have tid: "fst (startTracking 5 ''k3x9q1z0a'' (Some ''alice'') None exampleTracker)
               = ''track_5_k3x9q1z0a''"
    by (simp add: startTracking_def Let_def showInt_def)
  show ?thesis
    using endTracking_at_most_once
      [where ?now0.0 = 5 and rnd = "''k3x9q1z0a''" and uid = "Some ''alice''" and sid = None
         and s = exampleTracker and ?now1.0 = 9 and ?usage1.0 = workedUsage and ?now2.0 = 12
         and ?usage2.0 = workedUsage and tid' = "''track_0_unknown''"]
      inactive tid
    by (auto split: prod.splits)
qed

lemma lastRecorded_activeTracking_update [simp]:
  "lastRecorded (s\<lparr>activeTracking := a\<rparr>) uid = lastRecorded s uid"
  by (simp add: lastRecorded_def)

lemma userKey_fullUsage [simp]:
  "userKey (fullUsage now tr usage c) = strOr (trackingUserId tr) ''anonymous''"
  by (simp add: userKey_def fullUsage_def)

lemma endTracking_records:
  assumes "activeTracking s tid = Some tr" and "usageCost s usage = Inr c"
  shows "fst (endTracking now tid usage s) = None"
    and "activeTracking (snd (endTracking now tid usage s)) tid = None"
    and "lastRecorded (snd (endTracking now tid usage s)) (strOr (trackingUserId tr) ''anonymous'')
           = Some (fullUsage now tr usage c)"
  using lastRecorded_recordUsage [of now "fullUsage now tr usage c" s]
  by (simp_all add: endTracking_active [OF assms])

lemma numOr_simps [simp]: "numOr None d = d" "n \<noteq> 0 \<Longrightarrow> numOr (Some n) d = n"
  by (simp_all add: numOr_def)

lemma numOr_zero: "numOr x 0 = (case x of None \<Rightarrow> 0 | Some n \<Rightarrow> n)"
  by (simp add: numOr_def split: option.split)

text \<open>
  Claim C7. \<^verbatim>\<open>endTracking\<close> on an active tracking id completes the usage before it records
  it: an unspecified provider becomes \<^verbatim>\<open>openai\<close>, an unspecified \<^verbatim>\<open>totalTokens\<close> becomes
  the sum of the input and output tokens (a missing count being 0), an unspecified cost is
  the one the tracker calculates from the completed provider and model and from the two
  counts. The completed usage is the last record of the
  history of the session's user, and the tracking id is deleted.
\<close>

theorem endTracking_fills_defaults:
  assumes "activeTracking s tid = Some tr"
  shows "\<exists>r. fst (endTracking now tid usage s) = None
           \<and> lastRecorded (snd (endTracking now tid usage s))
                 (strOr (trackingUserId tr) ''anonymous'') = Some r
           \<and> activeTracking (snd (endTracking now tid usage s)) tid = None
           \<and> (optProvider usage = None \<longrightarrow> provider r = ''openai'')
           \<and> (optTotalTokens usage = None \<longrightarrow>
                 totalTokens r = (case optInputTokens usage of None \<Rightarrow> 0 | Some n \<Rightarrow> n)
                               + (case optOutputTokens usage of None \<Rightarrow> 0 | Some n \<Rightarrow> n))
           \<and> (optCost usage = None \<longrightarrow>
                 trackerCalculateCost s (provider r) (model r)
                   (case optInputTokens usage of None \<Rightarrow> 0 | Some n \<Rightarrow> n)
                   (case optOutputTokens usage of None \<Rightarrow> 0 | Some n \<Rightarrow> n) = Inr (cost r))
           \<and> inputTokens r = optInputTokens usage \<and> outputTokens r = optOutputTokens usage"
proof -
  obtain c where c: "usageCost s usage = Inr c"
    using usageCost_Inr by blast
  let ?r = "fullUsage now tr usage c"
  note rec = endTracking_records [OF assms c, of now]
  have ok: "fst (endTracking now tid usage s) = None" by (rule rec(1))
  have gone: "activeTracking (snd (endTracking now tid usage s)) tid = None" by (rule rec(2))
  have last: "lastRecorded (snd (endTracking now tid usage s))
                (strOr (trackingUserId tr) ''anonymous'') = Some ?r" by (rule rec(3))
  have cost1: "optCost usage = None \<longrightarrow>
          trackerCalculateCost s (provider ?r) (model ?r)
            (case optInputTokens usage of None \<Rightarrow> 0 | Some n \<Rightarrow> n)
            (case optOutputTokens usage of None \<Rightarrow> 0 | Some n \<Rightarrow> n) = Inr (cost ?r)"
    using c by (auto simp add: usageCost_def fullUsage_def numOr_zero)
  have prov1: "optProvider usage = None \<longrightarrow> provider ?r = ''openai''"
    by (simp add: fullUsage_def strOr_def)
  have tot1: "optTotalTokens usage = None \<longrightarrow>
                 totalTokens ?r = (case optInputTokens usage of None \<Rightarrow> 0 | Some n \<Rightarrow> n)
                               + (case optOutputTokens usage of None \<Rightarrow> 0 | Some n \<Rightarrow> n)"
    by (simp add: fullUsage_def numOr_zero)
  have io: "inputTokens ?r = optInputTokens usage" "outputTokens ?r = optOutputTokens usage"
    by (simp_all add: fullUsage_def)
  show ?thesis
    by (rule exI [of _ ?r], intro conjI; fact)
qed


lemma startedTracker_fields [simp]:
  "activeTracking startedTracker ''track_5_k3x9q1z0a''
     = Some \<lparr>trackingUserId = Some ''alice'', trackingSessionId = None, startTime = 5\<rparr>"
  "configCurrency (config startedTracker) = Some USD"
  by (simp_all add: startedTracker_def startTracking_def Let_def showInt_def strOrUndefined_def
        exampleTracker_def)

theorem endTracking_fills_defaults_witness:
  "activeTracking startedTracker ''track_5_k3x9q1z0a''
     = Some \<lparr>trackingUserId = Some ''alice'', trackingSessionId = None, startTime = 5\<rparr>
   \<and> optProvider countsUsage = None \<and> optTotalTokens countsUsage = None
   \<and> optCost countsUsage = None
   \<and> (\<exists>r. fst (endTracking 9 ''track_5_k3x9q1z0a'' countsUsage startedTracker) = None
          \<and> lastRecorded (snd (endTracking 9 ''track_5_k3x9q1z0a'' countsUsage startedTracker))
                ''alice'' = Some r
          \<and> activeTracking (snd (endTracking 9 ''track_5_k3x9q1z0a'' countsUsage startedTracker))
                ''track_5_k3x9q1z0a'' = None
          \<and> provider r = ''openai'' \<and> totalTokens r = 150
          \<and> trackerCalculateCost startedTracker (provider r) (model r) 100 50 = Inr (cost r)
          \<and> inputTokens r = Some 100 \<and> outputTokens r = Some 50)"
  using endTracking_fills_defaults
    [of startedTracker "''track_5_k3x9q1z0a''"
        "\<lparr>trackingUserId = Some ''alice'', trackingSessionId = None, startTime = 5\<rparr>"
        9 countsUsage]
  by (simp add: countsUsage_def strOr_def)

lemma lastRecordedCost_endTracking:
  assumes "activeTracking s tid = Some tr" and "usageCost s usage = Inr c"
  shows "lastRecordedCost (snd (endTracking now tid usage s))
           (strOr (trackingUserId tr) ''anonymous'') = Some c"
  using endTracking_records(3) [OF assms, of now]
  by (simp add: lastRecordedCost_def fullUsage_def)

text \<open>
  Claim C10. On a tracker configured with the currency KRW, \<^verbatim>\<open>endTracking\<close> without an
  explicit cost records the cost \<^verbatim>\<open>{ amount: calculateCost(...) * 1300, currency: 'KRW' }\<close>:
  the multiplier is the constant 1300. The state of the tracker holds no exchange rate, so
  no cached or fetched rate enters the amount.
\<close>

theorem endTracking_KRW_constant_1300:
  assumes "activeTracking s tid = Some tr"
    and "configCurrency (config s) = Some KRW"
    and "optCost usage = None"
  shows "\<exists>r c. fst (endTracking now tid usage s) = None
           \<and> lastRecorded (snd (endTracking now tid usage s))
                 (strOr (trackingUserId tr) ''anonymous'') = Some r
           \<and> calculateCost (provider r) (model r)
                 (numOr (optInputTokens usage) 0) (numOr (optOutputTokens usage) 0) = Inr c
           \<and> cost r = \<lparr>amount = c * 1300, currency = KRW\<rparr>"
proof -
  obtain c where c: "calculateCost (strOr (optProvider usage) ''openai'')
      (strOr (optModel usage) ''unknown'')
      (numOr (optInputTokens usage) 0) (numOr (optOutputTokens usage) 0) = Inr c"
    using calculateCost_Inr by blast
  let ?k = "\<lparr>amount = c * 1300, currency = KRW\<rparr>"
  have k: "usageCost s usage = Inr ?k"
    using assms(2,3) c by (simp add: usageCost_def trackerCalculateCost_def)
  let ?r = "fullUsage now tr usage ?k"
  note rec = endTracking_records [OF assms(1) k, of now]
  have ok: "fst (endTracking now tid usage s) = None" by (rule rec(1))
  have last: "lastRecorded (snd (endTracking now tid usage s))
                (strOr (trackingUserId tr) ''anonymous'') = Some ?r" by (rule rec(3))
  have calc: "calculateCost (provider ?r) (model ?r)
                 (numOr (optInputTokens usage) 0) (numOr (optOutputTokens usage) 0) = Inr c"
    using c by (simp add: fullUsage_def)
  have cost: "cost ?r = ?k" by (simp add: fullUsage_def)
  show ?thesis
    by (rule exI [of _ ?r], rule exI [of _ c], intro conjI; fact)
qed

lemma krwStarted_fields [simp]:
  "activeTracking krwStarted ''track_5_k3x9q1z0a''
     = Some \<lparr>trackingUserId = None, trackingSessionId = None, startTime = 5\<rparr>"
  "configCurrency (config krwStarted) = Some KRW"
  by (simp_all add: krwStarted_def krwTracker_def startTracking_def Let_def showInt_def
        strOrUndefined_def newTokenTracker_def defaultConfig_def)

lemma worked_cost:
  "calculateCost ''openai'' ''gpt-3.5-turbo'' 100 50 = Inr (1 / 8000)"
  by (simp add: default_models)

theorem endTracking_KRW_constant_1300_witness:
  "activeTracking krwStarted ''track_5_k3x9q1z0a''
     = Some \<lparr>trackingUserId = None, trackingSessionId = None, startTime = 5\<rparr>
   \<and> configCurrency (config krwStarted) = Some KRW
   \<and> optCost workedUsage = None
   \<and> (\<exists>r. fst (endTracking 9 ''track_5_k3x9q1z0a'' workedUsage krwStarted) = None
          \<and> lastRecorded (snd (endTracking 9 ''track_5_k3x9q1z0a'' workedUsage krwStarted))
                ''anonymous'' = Some r
          \<and> calculateCost (provider r) (model r) 100 50 = Inr (1 / 8000)
          \<and> cost r = \<lparr>amount = 13 / 80, currency = KRW\<rparr>)"
proof -
  have w: "optCost workedUsage = None" "optInputTokens workedUsage = Some 100"
    "optOutputTokens workedUsage = Some 50"
    by (simp_all add: workedUsage_def)
  obtain r c where r: "fst (endTracking 9 ''track_5_k3x9q1z0a'' workedUsage krwStarted) = None"
    "lastRecorded (snd (endTracking 9 ''track_5_k3x9q1z0a'' workedUsage krwStarted))
       (strOr None ''anonymous'') = Some r"
    "calculateCost (provider r) (model r) 100 50 = Inr c"
    "cost r = \<lparr>amount = c * 1300, currency = KRW\<rparr>"
    using endTracking_KRW_constant_1300
      [of krwStarted "''track_5_k3x9q1z0a''"
          "\<lparr>trackingUserId = None, trackingSessionId = None, startTime = 5\<rparr>" workedUsage 9]
    by (auto simp: w)
  have "usageCost krwStarted workedUsage = Inr \<lparr>amount = (1 / 8000) * 1300, currency = KRW\<rparr>"
    by (simp add: usageCost_def trackerCalculateCost_def workedUsage_def strOr_def numOr_def
          worked_cost)
  from endTracking_records(3) [OF krwStarted_fields(1) this, of 9] r(2)
  have "r = fullUsage 9 \<lparr>trackingUserId = None, trackingSessionId = None, startTime = 5\<rparr>
              workedUsage \<lparr>amount = (1 / 8000) * 1300, currency = KRW\<rparr>"
    by (simp add: strOr_def)
  then have "provider r = ''openai''" "model r = ''gpt-3.5-turbo''"
    "cost r = \<lparr>amount = 13 / 80, currency = KRW\<rparr>"
    by (simp_all add: fullUsage_def workedUsage_def strOr_def)
  with r show ?thesis
    by (auto simp: w worked_cost strOr_def)
qed

lemma usageCost_worked:
  "configCurrency (config s) \<noteq> Some KRW
     \<Longrightarrow> usageCost s workedUsage = Inr \<lparr>amount = 1 / 8000, currency = USD\<rparr>"
  by (simp add: usageCost_def trackerCalculateCost_def workedUsage_def strOr_def numOr_def
        worked_cost)

text \<open>
  Claim C2, amended. On a tracker that does not count in KRW, \<^verbatim>\<open>startTracking\<close> followed
  by \<^verbatim>\<open>endTracking\<close> with 100 input and 50 output tokens of the provider \<^verbatim>\<open>openai\<close> and the
  model \<^verbatim>\<open>gpt-3.5-turbo\<close>, without a cost, records a usage whose cost is
  \<^verbatim>\<open>(100/1000)*0.0005 + (50/1000)*0.0015\<close> USD, which is 0.000125 (not 0.0001125).
\<close>

theorem worked_example_cost:
  assumes "configCurrency (config s) \<noteq> Some KRW"
  shows "case startTracking now0 rnd uid sid s of
           (tid, s1) \<Rightarrow>
             fst (endTracking now1 tid workedUsage s1) = None
             \<and> lastRecordedCost (snd (endTracking now1 tid workedUsage s1))
                   (strOr (strOrUndefined uid (defaultUserId s)) ''anonymous'')
                 = Some \<lparr>amount = (100 / 1000) * 0.0005 + (50 / 1000) * 0.0015, currency = USD\<rparr>
             \<and> (100 / 1000) * 0.0005 + (50 / 1000) * 0.0015 = (0.000125 :: rat)"
proof -
  obtain tid s1 where start: "startTracking now0 rnd uid sid s = (tid, s1)"
    by (cases "startTracking now0 rnd uid sid s")
  have active: "activeTracking s1 tid
     = Some \<lparr>trackingUserId = strOrUndefined uid (defaultUserId s), trackingSessionId = sid,
             startTime = now0\<rparr>"
    using startTracking_active [of now0 rnd uid sid s] start by simp
  have "config s1 = config s"
    using startTracking_fields(3) [of now0 rnd uid sid s] start by simp
  with assms have c: "usageCost s1 workedUsage = Inr \<lparr>amount = 1 / 8000, currency = USD\<rparr>"
    by (simp add: usageCost_worked)
  show ?thesis
    using endTracking_records(1) [OF active c, of now1]
      lastRecordedCost_endTracking [OF active c, of now1] start
    by simp
qed

theorem worked_example_cost_witness:
  "configCurrency (config memoryTracker) \<noteq> Some KRW
   \<and> (case startTracking 5 ''k3x9q1z0a'' None None memoryTracker of
         (tid, s1) \<Rightarrow>
           fst (endTracking 9 tid workedUsage s1) = None
           \<and> lastRecordedCost (snd (endTracking 9 tid workedUsage s1)) ''anonymous''
               = Some \<lparr>amount = 1 / 8000, currency = USD\<rparr>)"
  using worked_example_cost
    [where s = memoryTracker and ?now0.0 = 5 and rnd = "''k3x9q1z0a''" and uid = None
       and sid = None and ?now1.0 = 9]
  by (simp add: strOr_def strOrUndefined_def split: prod.splits)

theorem worked_example_counterexample:
  "lastRecordedCost
     (snd (endTracking 9 (fst (startTracking 5 ''k3x9q1z0a'' None None memoryTracker)) workedUsage
             (snd (startTracking 5 ''k3x9q1z0a'' None None memoryTracker))))
     ''anonymous''
     = Some \<lparr>amount = (100 / 1000) * 0.0005 + (50 / 1000) * 0.0015, currency = USD\<rparr>
   \<and> lastRecordedCost
     (snd (endTracking 9 (fst (startTracking 5 ''k3x9q1z0a'' None None memoryTracker)) workedUsage
             (snd (startTracking 5 ''k3x9q1z0a'' None None memoryTracker))))
     ''anonymous''
     \<noteq> Some \<lparr>amount = 0.0001125, currency = USD\<rparr>"
proof -
  let ?start = "startTracking 5 ''k3x9q1z0a'' None None memoryTracker"
  have active: "activeTracking (snd ?start) (fst ?start)
     = Some \<lparr>trackingUserId = None, trackingSessionId = None, startTime = 5\<rparr>"
    by (simp add: startTracking_active strOrUndefined_def)
  have c: "usageCost (snd ?start) workedUsage = Inr \<lparr>amount = 1 / 8000, currency = USD\<rparr>"
    by (rule usageCost_worked) simp
  show ?thesis
    using lastRecordedCost_endTracking [OF active c, of 9]
    by (simp add: strOr_def)
qed

lemma sumTokens_simps [simp]:
  "sumTokens [] = 0" "sumTokens (x # xs) = totalTokens x + sumTokens xs"
  "sumTokens (xs @ ys) = sumTokens xs + sumTokens ys"
  by (simp_all add: sumTokens_def)

lemma withModelKey_snoc:
  "withModelKey k (xs @ [x]) = (if modelKey x = k then withModelKey k xs @ [x] else withModelKey k xs)"
  by (simp add: withModelKey_def)

lemma withModelKey_Nil [simp]: "withModelKey k [] = []"
  by (simp add: withModelKey_def)

lemma updateUserTotalsWith_eq:
  "updateUserTotalsWith addNum uid usage s =
     s\<lparr>userTotals := (userTotals s)(uid \<mapsto>
          addUsageWith addNum (config s) uid usage (userTotals s uid))\<rparr>"
  by (simp add: updateUserTotalsWith_def addUsageWith_def Let_def split: option.split)

lemma recordUsageWith_history:
  "usageHistory (recordUsageWith addNum now usage s) =
     (usageHistory s)(userKey usage \<mapsto>
        (case usageHistory s (userKey usage) of None \<Rightarrow> [] | Some h \<Rightarrow> h) @ [usage])"
  by (simp add: recordUsageWith_def Let_def userKey_def updateUserTotalsWith_eq)

lemma recordUsageWith_totals:
  "userTotals (recordUsageWith addNum now usage s) =
     (userTotals s)(userKey usage \<mapsto>
        addUsageWith addNum (config s) (userKey usage) usage (userTotals s (userKey usage)))"
  by (simp add: recordUsageWith_def Let_def userKey_def updateUserTotalsWith_eq)

lemma leftSum_simps [simp]:
  "leftSum addNum [] = 0"
  "leftSum addNum (xs @ [x]) = addNum (leftSum addNum xs) x"
  by (simp_all add: leftSum_def)

lemma leftSumTokens_simps [simp]:
  "leftSumTokens addNum [] = 0"
  "leftSumTokens addNum (xs @ [x]) = addNum (leftSumTokens addNum xs) (totalTokens x)"
  by (simp_all add: leftSumTokens_def)

lemma leftSumCost_simps [simp]:
  "leftSumCost addNum [] = 0"
  "leftSumCost addNum (xs @ [x]) = addNum (leftSumCost addNum xs) (amount (cost x))"
  by (simp_all add: leftSumCost_def)

lemma isLeftFoldOf_addUsageWith_None:
  "isLeftFoldOf addNum [usage] (addUsageWith addNum cfg uid usage None)"
  using withModelKey_snoc [of _ "[]" usage]
    leftSumTokens_simps(2) [of addNum "[]" usage] leftSumCost_simps(2) [of addNum "[]" usage]
  by (simp add: isLeftFoldOf_def addUsageWith_def Let_def)

lemma isLeftFoldOf_addUsageWith_Some:
  assumes "isLeftFoldOf addNum recs t"
  shows "isLeftFoldOf addNum (recs @ [usage]) (addUsageWith addNum cfg uid usage (Some t))"
proof -
  have key: "usageByModel t (modelKey usage) =
      (if withModelKey (modelKey usage) recs = [] then None
       else Some \<lparr>tokens = leftSumTokens addNum (withModelKey (modelKey usage) recs),
                  modelCost = leftSumCost addNum (withModelKey (modelKey usage) recs)\<rparr>)"
    and other: "\<And>k. usageByModel t k =
      (if withModelKey k recs = [] then None
       else Some \<lparr>tokens = leftSumTokens addNum (withModelKey k recs),
                  modelCost = leftSumCost addNum (withModelKey k recs)\<rparr>)"
    and tot: "userTotalTokens t = leftSumTokens addNum recs" "totalCost t = leftSumCost addNum recs"
    using assms by (simp_all add: isLeftFoldOf_def)
  have single: "leftSumTokens addNum [usage] = addNum 0 (totalTokens usage)"
    "leftSumCost addNum [usage] = addNum 0 (amount (cost usage))"
    using leftSumTokens_simps(2) [of addNum "[]" usage] leftSumCost_simps(2) [of addNum "[]" usage]
    by simp_all
  show ?thesis
    unfolding isLeftFoldOf_def
    by (simp add: addUsageWith_def Let_def key tot withModelKey_snoc other single)
qed

lemma recordUsageWith_aggregate:
  assumes "(recs = [] \<and> userTotals s uid = None)
           \<or> (\<exists>t. userTotals s uid = Some t \<and> isLeftFoldOf addNum recs t)"
  shows "(recs @ recordsOf uid [usage] = []
            \<and> userTotals (recordUsageWith addNum now usage s) uid = None)
         \<or> (\<exists>t. userTotals (recordUsageWith addNum now usage s) uid = Some t
                \<and> isLeftFoldOf addNum (recs @ recordsOf uid [usage]) t)"
proof (cases "userKey usage = uid")
  case False
  then show ?thesis
    using assms by (simp add: recordUsageWith_totals recordsOf_def)
next
  case True
  from assms show ?thesis
  proof
    assume "recs = [] \<and> userTotals s uid = None"
    with True show ?thesis
      using isLeftFoldOf_addUsageWith_None [of addNum usage "config s" uid]
      by (simp add: recordUsageWith_totals recordsOf_def)
  next
    assume "\<exists>t. userTotals s uid = Some t \<and> isLeftFoldOf addNum recs t"
    then obtain t where "userTotals s uid = Some t" "isLeftFoldOf addNum recs t" by blast
    with True show ?thesis
      using isLeftFoldOf_addUsageWith_Some [of addNum recs t usage "config s" uid]
      by (simp add: recordUsageWith_totals recordsOf_def)
  qed
qed

lemma recordsOf_Cons:
  "recordsOf uid (u # us) = recordsOf uid [u] @ recordsOf uid us"
  by (simp add: recordsOf_def)

lemma recordAllWith_aggregate:
  "(recs = [] \<and> userTotals s uid = None)
     \<or> (\<exists>t. userTotals s uid = Some t \<and> isLeftFoldOf addNum recs t)
   \<Longrightarrow> (recs @ recordsOf uid (map snd calls) = []
          \<and> userTotals (recordAllWith addNum calls s) uid = None)
     \<or> (\<exists>t. userTotals (recordAllWith addNum calls s) uid = Some t
            \<and> isLeftFoldOf addNum (recs @ recordsOf uid (map snd calls)) t)"
proof (induction calls arbitrary: s recs)
  case Nil
  then show ?case by (simp add: recordsOf_def)
next
  case (Cons call calls)
  obtain now usage where call: "call = (now, usage)" by (cases call)
  have step: "(recs @ recordsOf uid [usage] = []
            \<and> userTotals (recordUsageWith addNum now usage s) uid = None)
         \<or> (\<exists>t. userTotals (recordUsageWith addNum now usage s) uid = Some t
                \<and> isLeftFoldOf addNum (recs @ recordsOf uid [usage]) t)"
    using Cons.prems by (rule recordUsageWith_aggregate)
  have "recs @ recordsOf uid (map snd (call # calls))
          = (recs @ recordsOf uid [usage]) @ recordsOf uid (map snd calls)"
    using recordsOf_Cons [of uid usage "map snd calls"] by (simp add: call)
  then show ?case
    using Cons.IH [OF step] by (simp add: call)
qed

lemma recordAllWith_totals_unchanged:
  "recordsOf uid (map snd calls) = []
     \<Longrightarrow> userTotals (recordAllWith addNum calls s) uid = userTotals s uid"
proof (induction calls arbitrary: s)
  case Nil
  then show ?case by simp
next
  case (Cons call calls)
  obtain now usage where call: "call = (now, usage)" by (cases call)
  from Cons.prems have "userKey usage \<noteq> uid" and "recordsOf uid (map snd calls) = []"
    by (auto simp: call recordsOf_def split: if_splits)
  then show ?case
    by (simp add: call Cons.IH recordUsageWith_totals)
qed

lemma recordAllWith_history:
  "usageHistory (recordAllWith addNum calls s) uid =
     (if recordsOf uid (map snd calls) = [] then usageHistory s uid
      else Some ((case usageHistory s uid of None \<Rightarrow> [] | Some h \<Rightarrow> h)
                   @ recordsOf uid (map snd calls)))"
proof (induction calls arbitrary: s)
  case Nil
  then show ?case by (simp add: recordsOf_def)
next
  case (Cons call calls)
  obtain now usage where call: "call = (now, usage)" by (cases call)
  show ?case
    using recordsOf_Cons [of uid usage "map snd calls"]
    by (simp add: call Cons.IH recordUsageWith_history) (simp add: recordsOf_def)
qed

lemma sum_by_key:
  fixes g :: "'a \<Rightarrow> rat"
  assumes "finite K"
  shows "f ` set xs \<subseteq> K
    \<Longrightarrow> (\<Sum>k\<in>K. sum_list (map g (filter (\<lambda>x. f x = k) xs))) = sum_list (map g xs)"
proof (induction xs)
  case Nil
  then show ?case by simp
next
  case (Cons x xs)
  have "(\<Sum>k\<in>K. sum_list (map g (filter (\<lambda>y. f y = k) (x # xs))))
          = (\<Sum>k\<in>K. (if f x = k then g x else 0) + sum_list (map g (filter (\<lambda>y. f y = k) xs)))"
    by (rule sum.cong) simp_all
  also have "\<dots> = (\<Sum>k\<in>K. if f x = k then g x else 0)
                    + (\<Sum>k\<in>K. sum_list (map g (filter (\<lambda>y. f y = k) xs)))"
    by (rule sum.distrib)
  also have "(\<Sum>k\<in>K. if f x = k then g x else 0) = g x"
    using assms Cons.prems by simp
  finally show ?case
    using Cons by simp
qed

lemma floor_numeral_divide:
  "\<lfloor>numeral a / numeral b :: rat\<rfloor> = numeral a div numeral b"
  using floor_divide_of_int_eq [of "numeral a" "numeral b", where ?'a = rat] by simp

lemma scaleUp_shape:
  "scaleUp m e = (m', e') \<Longrightarrow> \<exists>k. m' = m * 2 ^ k \<and> e' = e - int k"
proof (induction m e rule: scaleUp.induct)
  case (1 m e)
  show ?case
  proof (cases "m < 4503599627370496 \<and> - 1074 < e")
    case True
    then have "scaleUp (m * 2) (e - 1) = (m', e')"
      using "1.prems" by (subst (asm) scaleUp.simps) simp
    from "1.IH" [OF True this] obtain k where "m' = m * 2 * 2 ^ k" "e' = e - 1 - int k"
      by auto
    then have "m' = m * 2 ^ Suc k \<and> e' = e - int (Suc k)" by simp
    then show ?thesis by blast
  next
    case False
    then have "m' = m \<and> e' = e"
      using "1.prems" by (subst (asm) scaleUp.simps) auto
    then show ?thesis by (intro exI [of _ 0]) simp
  qed
qed

lemma roundHalfEven_of_int: "roundHalfEven (of_int j) = j"
  by (simp add: roundHalfEven_def)

lemma twoPow_minus: "twoPow (- int k) = 1 / 2 ^ k"
  by (auto simp: twoPow_def)

lemma roundToDouble_of_nat:
  assumes "n \<le> 9007199254740992"
  shows "roundToDouble (of_nat n) = of_nat n"
proof -
  consider "n = 0" | "n = 9007199254740992" | "0 < n" "n < 9007199254740992"
    using assms by linarith
  then show ?thesis
  proof cases
    case 1
    then show ?thesis by (simp add: roundToDouble_def)
  next
    case 2
    have "roundToDouble 9007199254740992 = 9007199254740992"
      by (simp add: roundToDouble_def roundHalfEven_def twoPow_def Let_def
          scaleDown.simps scaleUp.simps floor_numeral_divide)
    with 2 show ?thesis by simp
  next
    case 3
    have "(of_nat n :: rat) < of_nat 9007199254740992"
      using 3(2) by (simp only: of_nat_less_iff)
    then have small: "\<not> 9007199254740992 \<le> (of_nat n :: rat)" by simp
    have down: "scaleDown (of_nat n) 0 = (of_nat n, 0)"
      using small by (subst scaleDown.simps) simp
    obtain m' e' where up: "scaleUp (of_nat n) 0 = (m', e')"
      by (cases "scaleUp (of_nat n) 0")
    from scaleUp_shape [OF up] obtain k where k: "m' = of_nat n * 2 ^ k" "e' = - int k"
      by auto
    have "m' = of_int (int n * 2 ^ k)" using k(1) by simp
    then have r: "roundHalfEven m' = int n * 2 ^ k"
      by (simp only: roundHalfEven_of_int)
    have "roundToDouble (of_nat n) = of_int (int n * 2 ^ k) * twoPow (- int k)"
      using 3(1) by (simp add: roundToDouble_def down up r k(2))
    also have "\<dots> = of_nat n" by (simp add: twoPow_minus)
    finally show ?thesis .
  qed
qed

lemma exactUpTo_doubleAdd: "exactUpTo doubleAdd 9007199254740992"
  unfolding exactUpTo_def doubleAdd_def
  using roundToDouble_of_nat by (metis of_nat_add)

lemma sum_list_Nats: "list_all (\<lambda>x. x \<in> \<nat>) xs \<Longrightarrow> sum_list xs \<in> (\<nat> :: rat set)"
  by (induction xs) simp_all

lemma leftSum_exact:
  assumes ex: "exactUpTo addNum bound"
  shows "list_all (\<lambda>x. x \<in> \<nat>) xs \<Longrightarrow> sum_list xs \<le> of_nat bound
           \<Longrightarrow> leftSum addNum xs = sum_list xs"
proof (induction xs rule: rev_induct)
  case Nil
  then show ?case by (simp add: leftSum_def)
next
  case (snoc x xs)
  from snoc.prems(1) have nx: "x \<in> \<nat>" and nxs: "list_all (\<lambda>x. x \<in> \<nat>) xs" by simp_all
  from nx obtain b where b: "x = of_nat b" by (rule Nats_cases)
  from sum_list_Nats [OF nxs] obtain a where a: "sum_list xs = of_nat a" by (rule Nats_cases)
  have "(of_nat (a + b) :: rat) \<le> of_nat bound"
    using snoc.prems(2) by (simp add: a b)
  then have le: "a + b \<le> bound" by (simp only: of_nat_le_iff)
  then have "(of_nat a :: rat) \<le> of_nat bound" by simp
  then have "leftSum addNum xs = of_nat a"
    using snoc.IH [OF nxs] by (simp add: a)
  then have "leftSum addNum (xs @ [x]) = addNum (of_nat a) (of_nat b)"
    by (simp add: leftSum_def b)
  also have "\<dots> = of_nat (a + b)"
    using ex le by (simp add: exactUpTo_def)
  finally show ?case by (simp add: a b)
qed

lemma sumTokens_filter_le:
  "naturalTokens recs \<Longrightarrow> sumTokens (filter P recs) \<le> sumTokens recs"
proof (induction recs)
  case Nil
  then show ?case by simp
next
  case (Cons r recs)
  then have "totalTokens r \<in> \<nat>" and "sumTokens (filter P recs) \<le> sumTokens recs"
    by (simp_all add: naturalTokens_def)
  moreover from this(1) have "0 \<le> totalTokens r" by (auto elim: Nats_cases)
  ultimately show ?case by simp
qed

lemma naturalTokens_filter: "naturalTokens recs \<Longrightarrow> naturalTokens (filter P recs)"
  by (induction recs) (simp_all add: naturalTokens_def)

lemma leftSumTokens_exact:
  assumes "exactUpTo addNum bound" and "naturalTokens recs" and "sumTokens recs \<le> of_nat bound"
  shows "leftSumTokens addNum recs = sumTokens recs"
  unfolding leftSumTokens_def sumTokens_def
proof (rule leftSum_exact [OF assms(1)])
  show "list_all (\<lambda>x. x \<in> \<nat>) (map totalTokens recs)"
    using assms(2) by (simp add: naturalTokens_def list_all_iff)
  show "sum_list (map totalTokens recs) \<le> of_nat bound"
    using assms(3) by (simp add: sumTokens_def)
qed

lemma isLeftFoldOf_dom:
  assumes "isLeftFoldOf addNum recs t"
  shows "dom (usageByModel t) = modelKey ` set recs"
proof -
  have "\<And>k. (withModelKey k recs \<noteq> []) = (k \<in> modelKey ` set recs)"
    by (auto simp: withModelKey_def filter_empty_conv)
  with assms show ?thesis
    by (auto simp: isLeftFoldOf_def dom_def)
qed

lemma isLeftFoldOf_exact_tokens:
  assumes fold: "isLeftFoldOf addNum recs t"
    and ex: "exactUpTo addNum bound" and nat: "naturalTokens recs"
    and le: "sumTokens recs \<le> of_nat bound"
  shows "userTotalTokens t = sumTokens recs"
    and "\<And>k. map_option tokens (usageByModel t k)
           = (if withModelKey k recs = [] then None else Some (sumTokens (withModelKey k recs)))"
    and "breakdownTokens t = sumTokens recs"
proof -
  show "userTotalTokens t = sumTokens recs"
    using fold leftSumTokens_exact [OF ex nat le] by (simp add: isLeftFoldOf_def)
  have key: "leftSumTokens addNum (withModelKey k recs) = sumTokens (withModelKey k recs)" for k
  proof (rule leftSumTokens_exact [OF ex])
    show "naturalTokens (withModelKey k recs)"
      unfolding withModelKey_def using nat by (rule naturalTokens_filter)
    have "sumTokens (withModelKey k recs) \<le> sumTokens recs"
      unfolding withModelKey_def using nat by (rule sumTokens_filter_le)
    with le show "sumTokens (withModelKey k recs) \<le> of_nat bound" by simp
  qed
  show "map_option tokens (usageByModel t k)
           = (if withModelKey k recs = [] then None else Some (sumTokens (withModelKey k recs)))"
    for k
    using fold key [of k] by (simp add: isLeftFoldOf_def)
  have d: "dom (usageByModel t) = modelKey ` set recs"
    using fold by (rule isLeftFoldOf_dom)
  have e: "\<And>k. k \<in> modelKey ` set recs \<Longrightarrow> withModelKey k recs \<noteq> []"
    by (auto simp: withModelKey_def filter_empty_conv)
  have "breakdownTokens t = (\<Sum>k\<in>modelKey ` set recs. sumTokens (withModelKey k recs))"
    unfolding breakdownTokens_def d
    using fold e key by (intro sum.cong) (simp_all add: isLeftFoldOf_def)
  also have "\<dots> = sumTokens recs"
    unfolding sumTokens_def withModelKey_def
    by (rule sum_by_key) simp_all
  finally show "breakdownTokens t = sumTokens recs" .
qed

lemma doubleAdd_costs:
  "doubleAdd 0 (3602879701896397 / 36028797018963968) = 3602879701896397 / 36028797018963968"
  "doubleAdd (3602879701896397 / 36028797018963968) (3602879701896397 / 36028797018963968)
     = 3602879701896397 / 18014398509481984"
  "doubleAdd (3602879701896397 / 18014398509481984) (3242591731706757 / 72057594037927936)
     = 2206763817411543 / 9007199254740992"
  "doubleAdd (3602879701896397 / 36028797018963968) (3242591731706757 / 72057594037927936)
     = 326510972984361 / 2251799813685248"
  "doubleAdd (326510972984361 / 2251799813685248) (3602879701896397 / 36028797018963968)
     = 8827055269646173 / 36028797018963968"
  "doubleAdd (3602879701896397 / 36028797018963968) (326510972984361 / 2251799813685248)
     = 8827055269646173 / 36028797018963968"
  by (simp_all add: doubleAdd_def roundToDouble_def roundHalfEven_def twoPow_def Let_def
      scaleDown.simps scaleUp.simps floor_numeral_divide)

lemma doubleAdd_tokens:
  "doubleAdd 0 0 = 0"
  "doubleAdd 0 30 = 30" "doubleAdd 30 30 = 60" "doubleAdd 60 30 = 90"
  "doubleAdd 0 9007199254740992 = 9007199254740992"
  "doubleAdd 9007199254740992 1 = 9007199254740992"
  by (simp_all add: doubleAdd_def roundToDouble_def roundHalfEven_def twoPow_def Let_def
      scaleDown.simps scaleUp.simps floor_numeral_divide)

lemma usageOf_fields [simp]:
  "userKey (usageOf uid mdl n c time) = (if uid = [] then ''anonymous'' else uid)"
  "modelKey (usageOf uid mdl n c time) = ''openai/'' @ mdl"
  "totalTokens (usageOf uid mdl n c time) = n"
  "amount (cost (usageOf uid mdl n c time)) = c"
  "timestamp (usageOf uid mdl n c time) = time"
  by (simp_all add: usageOf_def userKey_def modelKey_def strOr_def)

lemma recordUsageWith_config [simp]:
  "config (recordUsageWith addNum now usage s) = config s"
  by (simp add: recordUsageWith_def updateUserTotalsWith_def Let_def)

lemma doubleTracker_alice:
  "userTotals doubleTracker ''alice'' =
     Some \<lparr>userUserId = ''alice'', userTotalTokens = 90,
           totalCost = 2206763817411543 / 9007199254740992, userCurrency = ''USD'',
           usageByModel =
             [''openai/gpt-4'' \<mapsto>
                \<lparr>tokens = 60, modelCost = 326510972984361 / 2251799813685248\<rparr>,
              ''openai/gpt-3.5-turbo'' \<mapsto>
                \<lparr>tokens = 30, modelCost = 3602879701896397 / 36028797018963968\<rparr>],
           lastUsed = 3000\<rparr>"
  by (simp add: doubleTracker_def doubleCalls_def recordUsageWith_totals addUsageWith_def
      Let_def doubleAdd_costs doubleAdd_tokens fun_upd_twist)

lemma largeTracker_alice:
  "map_option userTotalTokens (userTotals largeTracker ''alice'') = Some 9007199254740992"
  by (simp add: largeTracker_def largeCalls_def recordUsageWith_totals addUsageWith_def
      Let_def doubleAdd_tokens)

text \<open>
  Claim C1, amended. Take a tracker in which the user \<open>uid\<close> has neither a history nor a
  total, any sequence of \<^verbatim>\<open>recordUsage\<close> calls, and any addition \<open>addNum\<close> of numbers in the
  place of the four \<^verbatim>\<open>+=\<close> of \<^verbatim>\<open>updateUserTotals\<close> (the addition of doubles with its
  rounding is one). Let \<open>recs\<close> be the usages of the sequence that are recorded under
  \<open>uid\<close>, in the order of the calls. If there are none, \<^verbatim>\<open>getUserUsage(uid)\<close> is \<^verbatim>\<open>null\<close>.
  Otherwise the history of \<open>uid\<close> is \<open>recs\<close> and \<^verbatim>\<open>getUserUsage(uid)\<close> is the left-to-right
  fold of \<open>recs\<close>: \<^verbatim>\<open>totalTokens\<close> is \<open>0 + t1 + t2 + ...\<close> over their \<^verbatim>\<open>totalTokens\<close>, added in
  the order of the calls, \<^verbatim>\<open>totalCost\<close> is the same sum over their \<^verbatim>\<open>cost.amount\<close>, and the
  breakdown has an entry exactly for the model keys of \<open>recs\<close>, holding the two sums over
  the records with that key. When moreover the addition is exact on natural numbers up
  to \<open>bound\<close> (that of doubles is, up to \<open>2 ^ 53\<close>), the token counts of \<open>recs\<close> are natural
  numbers and their sum is at most \<open>bound\<close>, then \<^verbatim>\<open>totalTokens\<close>, the \<^verbatim>\<open>tokens\<close> of each
  entry and the sum of the \<^verbatim>\<open>tokens\<close> across all entries are the exact sums. Nothing of the
  kind is stated for the costs: the sum of the costs across the entries need not be
  \<^verbatim>\<open>totalCost\<close>.
\<close>

theorem aggregate_is_left_fold_of_records:
  assumes "userTotals s uid = None" and "usageHistory s uid = None"
  shows "if recordsOf uid (map snd calls) = []
         then getUserUsage (recordAllWith addNum calls s) uid = None
         else usageHistory (recordAllWith addNum calls s) uid
                = Some (recordsOf uid (map snd calls))
           \<and> (\<exists>t. getUserUsage (recordAllWith addNum calls s) uid = Some t
                 \<and> isLeftFoldOf addNum (recordsOf uid (map snd calls)) t
                 \<and> (exactUpTo addNum bound \<and> naturalTokens (recordsOf uid (map snd calls))
                      \<and> sumTokens (recordsOf uid (map snd calls)) \<le> of_nat bound
                    \<longrightarrow> userTotalTokens t = sumTokens (recordsOf uid (map snd calls))
                      \<and> (\<forall>k. map_option tokens (usageByModel t k)
                               = (if withModelKey k (recordsOf uid (map snd calls)) = [] then None
                                  else Some (sumTokens
                                         (withModelKey k (recordsOf uid (map snd calls))))))
                      \<and> breakdownTokens t = sumTokens (recordsOf uid (map snd calls))))"
proof (cases "recordsOf uid (map snd calls) = []")
  case True
  with assms(1) show ?thesis
    by (simp add: getUserUsage_def recordAllWith_totals_unchanged)
next
  case False
  let ?recs = "recordsOf uid (map snd calls)"
  from recordAllWith_aggregate [of "[]" s uid addNum calls] assms(1) False
  obtain t where t: "userTotals (recordAllWith addNum calls s) uid = Some t"
    "isLeftFoldOf addNum ?recs t"
    by auto
  have h: "usageHistory (recordAllWith addNum calls s) uid = Some ?recs"
    using False assms(2) by (simp add: recordAllWith_history)
  have g: "getUserUsage (recordAllWith addNum calls s) uid = Some t"
    using t(1) by (simp add: getUserUsage_def)
  have e: "exactUpTo addNum bound \<and> naturalTokens ?recs \<and> sumTokens ?recs \<le> of_nat bound
      \<longrightarrow> userTotalTokens t = sumTokens ?recs
        \<and> (\<forall>k. map_option tokens (usageByModel t k)
                 = (if withModelKey k ?recs = [] then None
                    else Some (sumTokens (withModelKey k ?recs))))
        \<and> breakdownTokens t = sumTokens ?recs"
    using isLeftFoldOf_exact_tokens [OF t(2)] by blast
  have "\<exists>t. getUserUsage (recordAllWith addNum calls s) uid = Some t
           \<and> isLeftFoldOf addNum ?recs t
           \<and> (exactUpTo addNum bound \<and> naturalTokens ?recs \<and> sumTokens ?recs \<le> of_nat bound
              \<longrightarrow> userTotalTokens t = sumTokens ?recs
                \<and> (\<forall>k. map_option tokens (usageByModel t k)
                         = (if withModelKey k ?recs = [] then None
                            else Some (sumTokens (withModelKey k ?recs))))
                \<and> breakdownTokens t = sumTokens ?recs)"
    by (rule exI [of _ t], intro conjI; fact)
  with h False show ?thesis by simp
qed

theorem aggregate_is_left_fold_of_records_witness:
  "userTotals memoryTracker ''alice'' = None \<and> usageHistory memoryTracker ''alice'' = None
   \<and> recordsOf ''alice'' (map snd doubleCalls)
       = [usageOf ''alice'' ''gpt-4'' 30 (3602879701896397 / 36028797018963968) 1000,
          usageOf ''alice'' ''gpt-3.5-turbo'' 30 (3602879701896397 / 36028797018963968) 2000,
          usageOf ''alice'' ''gpt-4'' 30 (3242591731706757 / 72057594037927936) 3000]
   \<and> exactUpTo doubleAdd 9007199254740992
   \<and> naturalTokens (recordsOf ''alice'' (map snd doubleCalls))
   \<and> sumTokens (recordsOf ''alice'' (map snd doubleCalls)) = 90
   \<and> usageHistory (recordAllWith doubleAdd doubleCalls memoryTracker) ''alice''
       = Some (recordsOf ''alice'' (map snd doubleCalls))
   \<and> (\<exists>t. getUserUsage (recordAllWith doubleAdd doubleCalls memoryTracker) ''alice'' = Some t
          \<and> userTotalTokens t = 90
          \<and> totalCost t = 2206763817411543 / 9007199254740992
          \<and> usageByModel t ''openai/gpt-4''
              = Some \<lparr>tokens = 60, modelCost = 326510972984361 / 2251799813685248\<rparr>
          \<and> usageByModel t ''openai/gpt-3.5-turbo''
              = Some \<lparr>tokens = 30, modelCost = 3602879701896397 / 36028797018963968\<rparr>
          \<and> usageByModel t ''anthropic/claude-3-opus-20240229'' = None
          \<and> breakdownTokens t = 90)"
proof -
  let ?u1 = "usageOf ''alice'' ''gpt-4'' 30 (3602879701896397 / 36028797018963968) 1000"
  let ?u2 = "usageOf ''alice'' ''gpt-3.5-turbo'' 30 (3602879701896397 / 36028797018963968) 2000"
  let ?u3 = "usageOf ''alice'' ''gpt-4'' 30 (3242591731706757 / 72057594037927936) 3000"
  have recs: "recordsOf ''alice'' (map snd doubleCalls) = [?u1, ?u2, ?u3]"
    by (simp add: recordsOf_def doubleCalls_def)
  have nat: "naturalTokens [?u1, ?u2, ?u3]"
    by (simp add: naturalTokens_def)
  have sum: "sumTokens [?u1, ?u2, ?u3] = 90"
    by simp
  have le: "sumTokens [?u1, ?u2, ?u3] \<le> of_nat 9007199254740992"
    by simp
  have init: "userTotals memoryTracker ''alice'' = None"
    "usageHistory memoryTracker ''alice'' = None"
    by simp_all
  have w: "withModelKey ''openai/gpt-4'' [?u1, ?u2, ?u3] = [?u1, ?u3]"
    "withModelKey ''openai/gpt-3.5-turbo'' [?u1, ?u2, ?u3] = [?u2]"
    "withModelKey ''anthropic/claude-3-opus-20240229'' [?u1, ?u2, ?u3] = []"
    by (simp_all add: withModelKey_def)
  have c: "leftSumCost doubleAdd [?u1, ?u2, ?u3] = 2206763817411543 / 9007199254740992"
    "leftSumCost doubleAdd [?u1, ?u3] = 326510972984361 / 2251799813685248"
    "leftSumCost doubleAdd [?u2] = 3602879701896397 / 36028797018963968"
    by (simp_all add: leftSumCost_def leftSum_def doubleAdd_costs)
  have n: "leftSumTokens doubleAdd [?u1, ?u3] = 60" "leftSumTokens doubleAdd [?u2] = 30"
    by (simp_all add: leftSumTokens_def leftSum_def doubleAdd_tokens)
  from aggregate_is_left_fold_of_records
    [OF init, of doubleCalls doubleAdd 9007199254740992]
  have h: "usageHistory (recordAllWith doubleAdd doubleCalls memoryTracker) ''alice''
             = Some [?u1, ?u2, ?u3]"
    and "\<exists>t. getUserUsage (recordAllWith doubleAdd doubleCalls memoryTracker) ''alice'' = Some t
            \<and> isLeftFoldOf doubleAdd [?u1, ?u2, ?u3] t
            \<and> (exactUpTo doubleAdd 9007199254740992 \<and> naturalTokens [?u1, ?u2, ?u3]
                 \<and> sumTokens [?u1, ?u2, ?u3] \<le> of_nat 9007199254740992
               \<longrightarrow> userTotalTokens t = sumTokens [?u1, ?u2, ?u3]
                 \<and> (\<forall>k. map_option tokens (usageByModel t k)
                          = (if withModelKey k [?u1, ?u2, ?u3] = [] then None
                             else Some (sumTokens (withModelKey k [?u1, ?u2, ?u3]))))
                 \<and> breakdownTokens t = sumTokens [?u1, ?u2, ?u3])"
    unfolding recs by simp_all
  then obtain t where g: "getUserUsage (recordAllWith doubleAdd doubleCalls memoryTracker) ''alice''
        = Some t"
    and fold: "isLeftFoldOf doubleAdd [?u1, ?u2, ?u3] t"
    and ex: "userTotalTokens t = sumTokens [?u1, ?u2, ?u3]"
      "breakdownTokens t = sumTokens [?u1, ?u2, ?u3]"
    using exactUpTo_doubleAdd nat le by blast
  have t1: "userTotalTokens t = 90" and t5: "breakdownTokens t = 90"
    using ex sum by simp_all
  have t2: "totalCost t = 2206763817411543 / 9007199254740992"
    using fold c(1) by (simp add: isLeftFoldOf_def)
  have e: "\<And>k. usageByModel t k =
      (if withModelKey k [?u1, ?u2, ?u3] = [] then None
       else Some \<lparr>tokens = leftSumTokens doubleAdd (withModelKey k [?u1, ?u2, ?u3]),
                  modelCost = leftSumCost doubleAdd (withModelKey k [?u1, ?u2, ?u3])\<rparr>)"
    using fold by (simp add: isLeftFoldOf_def)
  have t3: "usageByModel t ''openai/gpt-4''
      = Some \<lparr>tokens = 60, modelCost = 326510972984361 / 2251799813685248\<rparr>"
    unfolding e w using c(2) n(1) by simp
  have t4: "usageByModel t ''openai/gpt-3.5-turbo''
      = Some \<lparr>tokens = 30, modelCost = 3602879701896397 / 36028797018963968\<rparr>"
    unfolding e w using c(3) n(2) by simp
  have t6: "usageByModel t ''anthropic/claude-3-opus-20240229'' = None"
    unfolding e w by simp
  have "\<exists>t. getUserUsage (recordAllWith doubleAdd doubleCalls memoryTracker) ''alice'' = Some t
          \<and> userTotalTokens t = 90
          \<and> totalCost t = 2206763817411543 / 9007199254740992
          \<and> usageByModel t ''openai/gpt-4''
              = Some \<lparr>tokens = 60, modelCost = 326510972984361 / 2251799813685248\<rparr>
          \<and> usageByModel t ''openai/gpt-3.5-turbo''
              = Some \<lparr>tokens = 30, modelCost = 3602879701896397 / 36028797018963968\<rparr>
          \<and> usageByModel t ''anthropic/claude-3-opus-20240229'' = None
          \<and> breakdownTokens t = 90"
    by (rule exI [of _ t], intro conjI; fact)
  moreover note init exactUpTo_doubleAdd
  moreover have "naturalTokens (recordsOf ''alice'' (map snd doubleCalls))"
    unfolding recs by (rule nat)
  moreover have "sumTokens (recordsOf ''alice'' (map snd doubleCalls)) = 90"
    unfolding recs by (rule sum)
  moreover have "usageHistory (recordAllWith doubleAdd doubleCalls memoryTracker) ''alice''
       = Some (recordsOf ''alice'' (map snd doubleCalls))"
    unfolding recs by (rule h)
  moreover note recs
  ultimately show ?thesis by (intro conjI)
qed

text \<open>
  The claim as it was stated fails for the costs. Three usages of one user with the costs
  0.1 (gpt-4), 0.1 (gpt-3.5-turbo) and 0.045 (gpt-4), added as doubles: \<^verbatim>\<open>totalCost\<close> is
  0.245, the entries of the breakdown hold 0.14500000000000002 and 0.1, and their sum,
  exact or added as doubles in either order, is 0.24500000000000002. Neither is the
  exact sum of the three costs, which lies half way between the two. And a total of
  \<open>2 ^ 53\<close> tokens stays where it is when one more token is recorded.
\<close>

theorem aggregate_cost_sums_counterexample:
  "totalCostOf doubleTracker ''alice'' = Some (2206763817411543 / 9007199254740992)
   \<and> entryCostOf doubleTracker ''alice'' ''openai/gpt-4''
       = Some (326510972984361 / 2251799813685248)
   \<and> entryCostOf doubleTracker ''alice'' ''openai/gpt-3.5-turbo''
       = Some (3602879701896397 / 36028797018963968)
   \<and> breakdownCostOf doubleTracker ''alice'' = Some (8827055269646173 / 36028797018963968)
   \<and> doubleAdd (326510972984361 / 2251799813685248) (3602879701896397 / 36028797018963968)
       = 8827055269646173 / 36028797018963968
   \<and> doubleAdd (3602879701896397 / 36028797018963968) (326510972984361 / 2251799813685248)
       = 8827055269646173 / 36028797018963968
   \<and> breakdownCostOf doubleTracker ''alice'' \<noteq> totalCostOf doubleTracker ''alice''
   \<and> leftSumCost (+) (recordsOf ''alice'' (map snd doubleCalls))
       = 17654110539292345 / 72057594037927936
   \<and> totalCostOf doubleTracker ''alice''
       \<noteq> Some (leftSumCost (+) (recordsOf ''alice'' (map snd doubleCalls)))
   \<and> totalTokensOf largeTracker ''alice'' = Some 9007199254740992
   \<and> sumTokens (recordsOf ''alice'' (map snd largeCalls)) = 9007199254740993"
proof -
  have a: "totalCostOf doubleTracker ''alice'' = Some (2206763817411543 / 9007199254740992)"
    by (simp add: totalCostOf_def getUserUsage_def doubleTracker_alice)
  have b: "entryCostOf doubleTracker ''alice'' ''openai/gpt-4''
       = Some (326510972984361 / 2251799813685248)"
    "entryCostOf doubleTracker ''alice'' ''openai/gpt-3.5-turbo''
       = Some (3602879701896397 / 36028797018963968)"
    by (simp_all add: entryCostOf_def getUserUsage_def doubleTracker_alice)
  have c: "breakdownCostOf doubleTracker ''alice''
       = Some (8827055269646173 / 36028797018963968)"
    by (simp add: breakdownCostOf_def breakdownCost_def getUserUsage_def doubleTracker_alice)
  have d: "breakdownCostOf doubleTracker ''alice'' \<noteq> totalCostOf doubleTracker ''alice''"
    unfolding a c by simp
  have e: "leftSumCost (+) (recordsOf ''alice'' (map snd doubleCalls))
       = 17654110539292345 / 72057594037927936"
    by (simp add: leftSumCost_def leftSum_def recordsOf_def doubleCalls_def)
  have f: "totalCostOf doubleTracker ''alice''
       \<noteq> Some (leftSumCost (+) (recordsOf ''alice'' (map snd doubleCalls)))"
    unfolding a e by simp
  have g: "totalTokensOf largeTracker ''alice'' = Some 9007199254740992"
    using largeTracker_alice by (simp add: totalTokensOf_def getUserUsage_def)
  have h: "sumTokens (recordsOf ''alice'' (map snd largeCalls)) = 9007199254740993"
    by (simp add: recordsOf_def largeCalls_def)
  show ?thesis
    using a b c d e f g h doubleAdd_costs(5,6) by (intro conjI)
qed

lemma mapTimestamp_inverse:
  "(\<And>t. g (f t) = t) \<Longrightarrow> mapTimestamp g (mapTimestamp f usage) = usage"
  by (simp add: mapTimestamp_def)

lemma mapLastUsed_inverse:
  "(\<And>t. g (f t) = t) \<Longrightarrow> mapLastUsed g (mapLastUsed f userTotal) = userTotal"
  by (simp add: mapLastUsed_def)

lemma loadFromStorage_saved:
  assumes "load fs' = Some data" and "storage s = Some fs'"
  shows "usageHistory (loadFromStorage s) = history data"
    and "userTotals (loadFromStorage s) = totals data"
  using assms by (simp_all add: loadFromStorage_def)

text \<open>
  Claim C6. When the date conversions of the runtime are inverse to each other and \<^verbatim>\<open>save\<close>
  reports success, \<^verbatim>\<open>load\<close> returns the history and the totals that were saved, every
  record and every total with all its fields and with its time stamp as a \<^verbatim>\<open>Date\<close> again.
  A tracker constructed on the saved file takes them over, and what \<^verbatim>\<open>saveToStorage\<close>
  writes are the history and the totals of the tracker.
\<close>

theorem save_load_roundtrip:
  assumes "\<forall>t. newDate fs (dateToJSON fs t) = t"
    and "save now hist tots fs = (True, fs')"
  shows "(\<exists>data. load fs' = Some data \<and> history data = hist \<and> totals data = tots)
         \<and> (enableFileStorage cfg \<noteq> Some False \<longrightarrow>
              usageHistory (newTokenTracker cfg fs') = hist
              \<and> userTotals (newTokenTracker cfg fs') = tots)
         \<and> (storage s = Some fs \<and> usageHistory s = hist \<and> userTotals s = tots \<longrightarrow>
              storage (saveToStorage now s) = Some fs')"
proof -
  have w: "writable fs"
    using assms(2) by (simp add: save_def Let_def split: if_splits)
  have h: "\<And>user. map_option (map (mapTimestamp (newDate fs)))
             (map_option (map (mapTimestamp (dateToJSON fs))) (hist user)) = hist user"
    using assms(1)
    by (simp add: option.map_comp comp_def mapTimestamp_inverse option.map_ident)
  have t: "\<And>user. map_option (mapLastUsed (newDate fs))
             (map_option (mapLastUsed (dateToJSON fs)) (tots user)) = tots user"
    using assms(1)
    by (simp add: option.map_comp comp_def mapLastUsed_inverse option.map_ident)
  have fs': "fs' = snd (save now hist tots fs)"
    using assms(2) by simp
  have l: "load fs' = Some \<lparr>history = hist, totals = tots, lastSaved = dateToJSON fs now\<rparr>"
    using w by (simp add: fs' save_def load_def Let_def h t)
  have n: "enableFileStorage cfg \<noteq> Some False \<longrightarrow>
              usageHistory (newTokenTracker cfg fs') = hist
              \<and> userTotals (newTokenTracker cfg fs') = tots"
    by (auto simp: newTokenTracker_def Let_def loadFromStorage_saved [OF l]
          split: option.splits)
  have sv: "storage s = Some fs \<and> usageHistory s = hist \<and> userTotals s = tots \<longrightarrow>
              storage (saveToStorage now s) = Some fs'"
    by (auto simp: saveToStorage_def fs')
  from l n sv show ?thesis by simp
qed

lemma example_codec: "exampleNewDate (exampleDateToJSON t) = t"
proof (cases "t < 0")
  case True
  then show ?thesis by (simp add: exampleDateToJSON_def exampleNewDate_def)
next
  case False
  then show ?thesis
    by (cases "nat t") (auto simp: exampleDateToJSON_def exampleNewDate_def)
qed

theorem save_load_roundtrip_witness:
  "(\<forall>t. newDate exampleStorage (dateToJSON exampleStorage t) = t)
   \<and> save 4000 (usageHistory exampleTracker) (userTotals exampleTracker) exampleStorage
       = (True, savedStorage)
   \<and> (\<exists>data. load savedStorage = Some data
          \<and> history data = usageHistory exampleTracker
          \<and> totals data = userTotals exampleTracker)
   \<and> enableFileStorage defaultConfig \<noteq> Some False
   \<and> usageHistory (newTokenTracker defaultConfig savedStorage) = usageHistory exampleTracker
   \<and> userTotals (newTokenTracker defaultConfig savedStorage) = userTotals exampleTracker
   \<and> usageHistory exampleTracker ''bob'' = Some [usageB]
   \<and> storage (exampleTracker\<lparr>storage := Some exampleStorage\<rparr>) = Some exampleStorage
   \<and> storage (saveToStorage 4000 (exampleTracker\<lparr>storage := Some exampleStorage\<rparr>))
       = Some savedStorage"
proof -
  have codec: "\<forall>t. newDate exampleStorage (dateToJSON exampleStorage t) = t"
    by (simp add: exampleStorage_def example_codec)
  have saved: "save 4000 (usageHistory exampleTracker) (userTotals exampleTracker) exampleStorage
       = (True, savedStorage)"
    by (simp add: savedStorage_def save_def Let_def exampleStorage_def)
  have cfg: "enableFileStorage defaultConfig \<noteq> Some False"
    by (simp add: defaultConfig_def)
  show ?thesis
    using save_load_roundtrip
      [OF codec saved, of defaultConfig "exampleTracker\<lparr>storage := Some exampleStorage\<rparr>"]
      codec saved cfg
    by (simp add: exampleTracker_history)
qed

section \<open>Properties of the cost comparison\<close>

lemma compare_costs_values:
  "calculateCost ''openai'' ''gpt-3.5-turbo'' 500 500 = Inr (1 / 1000)"
  "calculateCost ''anthropic'' ''claude-3-sonnet-20240229'' 500 500 = Inr (9 / 1000)"
  by (simp_all add: default_models)

lemma normalize_compare:
  "normalizeModelName ''gpt-4'' = ''gpt-4''"
  "normalizeModelName ''claude-3-haiku-20240307'' = ''claude-3-haiku-20240307''"
  "normalizeModelName ''claude-3-opus-20240229'' = ''claude-3-opus-20240229''"
  by (simp_all add: normalizeModelName.simps isDigit_def)

lemma compare_costs_values2:
  "calculateCost ''openai'' ''gpt-4'' i out = Inr ((i / 1000) * 0.03 + (out / 1000) * 0.06)"
  "calculateCost ''anthropic'' ''claude-3-haiku-20240307'' i out
     = Inr ((i / 1000) * 0.00025 + (out / 1000) * 0.00125)"
  "calculateCost ''anthropic'' ''claude-3-opus-20240229'' i out
     = Inr ((i / 1000) * 0.015 + (out / 1000) * 0.075)"
proof -
  show "calculateCost ''openai'' ''gpt-4'' i out = Inr ((i / 1000) * 0.03 + (out / 1000) * 0.06)"
    by (simp add: calculateCost_openai normalize_compare openaiCost_def whisperCost_eq
          ttsCost_cases gptModels_def openaiPricingKey_def PRICING_openai_def perTokenCost_def
          rate_def)
  show "calculateCost ''anthropic'' ''claude-3-haiku-20240307'' i out
     = Inr ((i / 1000) * 0.00025 + (out / 1000) * 0.00125)"
    by (simp add: calculateCost_anthropic normalize_compare tokenProviderCost_def claudeModels_def
          anthropicPricingKey_def PRICING_anthropic_def perTokenCost_def rate_def)
  show "calculateCost ''anthropic'' ''claude-3-opus-20240229'' i out
     = Inr ((i / 1000) * 0.015 + (out / 1000) * 0.075)"
    by (simp add: calculateCost_anthropic normalize_compare tokenProviderCost_def claudeModels_def
          anthropicPricingKey_def PRICING_anthropic_def perTokenCost_def rate_def)
qed


lemma addUsage_None_cost:
  "map_option modelCost (usageByModel (addUsage cfg uid usage None) (modelKey usage))
     = Some (amount (cost usage))"
  by (simp add: addUsage_def Let_def)

lemma compareOne_result:
  assumes none: "userTotals s ''_compare'' = None"
    and usd: "configCurrency (config s) \<noteq> Some KRW"
    and names: "prov \<noteq> []" "mdl \<noteq> []"
    and c: "calculateCost prov mdl (numOr (Some (of_int \<lfloor>tokenCount / 2\<rfloor>)) 0)
              (numOr (Some (of_int \<lceil>tokenCount / 2\<rceil>)) 0) = Inr c"
  shows "fst (compareOne tokenCount now rnd (prov, mdl, name) s) = Inr (name, numOr (Some c) 0)"
    and "userTotals (snd (compareOne tokenCount now rnd (prov, mdl, name) s)) ''_compare'' = None"
    and "config (snd (compareOne tokenCount now rnd (prov, mdl, name) s)) = config s"
proof -
  let ?usage = "\<lparr>optProvider = Some prov, optModel = Some mdl,
                  optInputTokens = Some (of_int \<lfloor>tokenCount / 2\<rfloor>),
                  optOutputTokens = Some (of_int \<lceil>tokenCount / 2\<rceil>),
                  optTotalTokens = Some tokenCount,
                  optCost = None, optMetadata = None\<rparr>"
  let ?start = "startTracking now rnd (Some ''_compare'') None s"
  let ?tr = "\<lparr>trackingUserId = Some ''_compare'', trackingSessionId = None, startTime = now\<rparr>"
  let ?full = "fullUsage now ?tr ?usage \<lparr>amount = c, currency = USD\<rparr>"
  have active: "activeTracking (snd ?start) (fst ?start) = Some ?tr"
    by (simp add: startTracking_active strOrUndefined_def)
  have cost: "usageCost (snd ?start) ?usage = Inr \<lparr>amount = c, currency = USD\<rparr>"
    using usd c names by (simp add: usageCost_def trackerCalculateCost_def strOr_def)
  have e: "endTracking now (fst ?start) ?usage (snd ?start)
             = (None, (recordUsage now ?full (snd ?start))
                        \<lparr>activeTracking := (activeTracking (snd ?start))(fst ?start := None)\<rparr>)"
    using active cost by (rule endTracking_active)
  have key: "userKey ?full = ''_compare''"
    by (simp add: strOr_def)
  have mk: "modelKey ?full = prov @ ''/'' @ mdl"
    using names by (simp add: modelKey_def fullUsage_def strOr_def)
  have tot: "userTotals (recordUsage now ?full (snd ?start)) ''_compare''
               = Some (addUsage (config s) ''_compare'' ?full None)"
    using none by (simp add: recordUsage_totals strOr_def)
  have mc: "map_option modelCost
              (usageByModel (addUsage (config s) ''_compare'' ?full None) (prov @ ''/'' @ mdl))
            = Some c"
    using addUsage_None_cost [of "config s" "''_compare''" ?full]
    by (simp add: mk) (simp add: fullUsage_def)
  have unfold: "compareOne tokenCount now rnd (prov, mdl, name) s =
      (Inr (name, numOr (Some c) 0),
       clearUserUsage now ''_compare''
         ((recordUsage now ?full (snd ?start))
            \<lparr>activeTracking := (activeTracking (snd ?start))(fst ?start := None)\<rparr>))"
    using mc by (auto simp add: compareOne_def Let_def case_prod_unfold e getUserUsage_def tot)
  show "fst (compareOne tokenCount now rnd (prov, mdl, name) s) = Inr (name, numOr (Some c) 0)"
    by (simp add: unfold)
  show "userTotals (snd (compareOne tokenCount now rnd (prov, mdl, name) s)) ''_compare'' = None"
    by (simp add: unfold)
  show "config (snd (compareOne tokenCount now rnd (prov, mdl, name) s)) = config s"
    by (simp add: unfold)
qed


lemma compareMap_result:
  assumes "list_all2 (\<lambda>entry row. fst entry \<noteq> [] \<and> fst (snd entry) \<noteq> []
              \<and> fst row = snd (snd entry)
              \<and> calculateCost (fst entry) (fst (snd entry))
                    (numOr (Some (of_int \<lfloor>tokenCount / 2\<rfloor>)) 0)
                    (numOr (Some (of_int \<lceil>tokenCount / 2\<rceil>)) 0) = Inr (snd row)
              \<and> snd row \<noteq> 0) entries rows"
    and "userTotals s ''_compare'' = None"
    and "configCurrency (config s) \<noteq> Some KRW"
  shows "fst (compareMap tokenCount env i entries s) = Inr rows
         \<and> userTotals (snd (compareMap tokenCount env i entries s)) ''_compare'' = None
         \<and> config (snd (compareMap tokenCount env i entries s)) = config s"
  using assms
proof (induction entries rows arbitrary: s i rule: list_all2_induct)
  case Nil
  then show ?case by simp
next
  case (Cons entry entries row rows)
  obtain prov mdl name where entry: "entry = (prov, mdl, name)" by (cases entry)
  obtain name' c where row: "row = (name', c)" by (cases row)
  from Cons.hyps(1) have h: "prov \<noteq> []" "mdl \<noteq> []" "name' = name" "c \<noteq> 0"
    "calculateCost prov mdl (numOr (Some (of_int \<lfloor>tokenCount / 2\<rfloor>)) 0)
       (numOr (Some (of_int \<lceil>tokenCount / 2\<rceil>)) 0) = Inr c"
    by (simp_all add: entry row)
  note one = compareOne_result [OF Cons.prems(1) Cons.prems(2) h(1) h(2) h(5),
      of "fst (env i)" "snd (env i)" name]
  obtain s1 where first:
    "compareOne tokenCount (fst (env i)) (snd (env i)) (prov, mdl, name) s = (Inr (name, c), s1)"
    using one(1) h(4)
    by (cases "compareOne tokenCount (fst (env i)) (snd (env i)) (prov, mdl, name) s") simp
  have s1: "userTotals s1 ''_compare'' = None" "config s1 = config s"
    using one(2,3) first by simp_all
  have usd: "configCurrency (config s1) \<noteq> Some KRW"
    using s1(2) Cons.prems(2) by simp
  note rest = Cons.IH [OF s1(1) usd, of "Suc i"]
  obtain r s2 where map: "compareMap tokenCount env (Suc i) entries s1 = (r, s2)"
    by (cases "compareMap tokenCount env (Suc i) entries s1")
  with rest have r: "r = Inr rows" "userTotals s2 ''_compare'' = None" "config s2 = config s1"
    by simp_all
  have "compareMap tokenCount env i (entry # entries) s = (Inr (row # rows), s2)"
    using first map r(1) by (simp add: entry row h(3))
  then show ?case
    using r s1(2) by simp
qed


lemma compareMap_1000:
  assumes "userTotals s ''_compare'' = None" and "configCurrency (config s) \<noteq> Some KRW"
  shows "fst (compareMap 1000 env 0 compareModels s) =
           Inr [(''GPT-3.5'', 1 / 1000), (''GPT-4'', 9 / 200), (''Claude Haiku'', 3 / 4000),
                (''Claude Sonnet'', 9 / 1000), (''Claude Opus'', 9 / 200)]"
proof -
  have "list_all2 (\<lambda>entry row. fst entry \<noteq> [] \<and> fst (snd entry) \<noteq> []
              \<and> fst row = snd (snd entry)
              \<and> calculateCost (fst entry) (fst (snd entry))
                    (numOr (Some (of_int \<lfloor>1000 / 2\<rfloor>)) 0)
                    (numOr (Some (of_int \<lceil>1000 / 2\<rceil>)) 0) = Inr (snd row)
              \<and> snd row \<noteq> 0) compareModels
           [(''GPT-3.5'', 1 / 1000), (''GPT-4'', 9 / 200), (''Claude Haiku'', 3 / 4000),
            (''Claude Sonnet'', 9 / 1000), (''Claude Opus'', 9 / 200)]"
    by (simp add: compareModels_def compare_costs_values compare_costs_values2)
  from compareMap_result [OF this assms] show ?thesis by simp
qed

lemma sort_rows:
  "sort_key snd [(''GPT-3.5'', 1 / 1000 :: rat), (''GPT-4'', 9 / 200), (''Claude Haiku'', 3 / 4000),
                (''Claude Sonnet'', 9 / 1000), (''Claude Opus'', 9 / 200)]
   = [(''Claude Haiku'', 3 / 4000), (''GPT-3.5'', 1 / 1000), (''Claude Sonnet'', 9 / 1000),
      (''GPT-4'', 9 / 200), (''Claude Opus'', 9 / 200)]"
  by simp

text \<open>
  Claim C3, amended. On a tracker that counts in USD and has no total for the user
  \<^verbatim>\<open>_compare\<close>, the comparison of 1000 tokens (500 input, 500 output) across the five
  curated models yields the rows Claude Haiku 0.00075, GPT-3.5 0.001, Claude Sonnet 0.009,
  GPT-4 0.045, Claude Opus 0.045: the list is sorted by cost in non-decreasing order, and
  the costs of GPT-4 and Claude Opus are equal.
\<close>

theorem compareCosts_1000_sorted_with_tie:
  assumes "getUserUsage s ''_compare'' = None" and "configCurrency (config s) \<noteq> Some KRW"
  shows "fst (compareCosts 1000 env s) =
           Inr [(''Claude Haiku'', 0.00075), (''GPT-3.5'', 0.001), (''Claude Sonnet'', 0.009),
                (''GPT-4'', 0.045), (''Claude Opus'', 0.045)]
         \<and> comparedCosts (compareCosts 1000 env s) = [0.00075, 0.001, 0.009, 0.045, 0.045]
         \<and> sorted (comparedCosts (compareCosts 1000 env s))"
proof -
  have m: "fst (compareMap 1000 env 0 compareModels s) =
           Inr [(''GPT-3.5'', 1 / 1000), (''GPT-4'', 9 / 200), (''Claude Haiku'', 3 / 4000),
                (''Claude Sonnet'', 9 / 1000), (''Claude Opus'', 9 / 200)]"
    using assms by (intro compareMap_1000) (simp_all add: getUserUsage_def)
  obtain r s1 where c: "compareMap 1000 env 0 compareModels s = (r, s1)"
    by (cases "compareMap 1000 env 0 compareModels s")
  with m have r: "r = Inr [(''GPT-3.5'', 1 / 1000), (''GPT-4'', 9 / 200),
      (''Claude Haiku'', 3 / 4000), (''Claude Sonnet'', 9 / 1000), (''Claude Opus'', 9 / 200)]"
    by simp
  have "fst (compareCosts 1000 env s) =
          Inr (sort_key snd [(''GPT-3.5'', 1 / 1000), (''GPT-4'', 9 / 200),
      (''Claude Haiku'', 3 / 4000), (''Claude Sonnet'', 9 / 1000), (''Claude Opus'', 9 / 200)])"
    by (simp add: compareCosts_def c r del: sort_key_simps)
  then have f: "fst (compareCosts 1000 env s) =
           Inr [(''Claude Haiku'', 3 / 4000), (''GPT-3.5'', 1 / 1000), (''Claude Sonnet'', 9 / 1000),
      (''GPT-4'', 9 / 200), (''Claude Opus'', 9 / 200)]"
    by (simp only: sort_rows)
  then show ?thesis
    by (simp add: comparedCosts_def)
qed

lemma memoryTracker_compare:
  "getUserUsage memoryTracker ''_compare'' = None"
  "configCurrency (config memoryTracker) \<noteq> Some KRW"
  by (simp_all add: getUserUsage_def)

theorem compareCosts_1000_sorted_with_tie_witness:
  "getUserUsage memoryTracker ''_compare'' = None
   \<and> configCurrency (config memoryTracker) \<noteq> Some KRW
   \<and> fst (compareCosts 1000 exampleEnv memoryTracker) =
           Inr [(''Claude Haiku'', 3 / 4000), (''GPT-3.5'', 1 / 1000), (''Claude Sonnet'', 9 / 1000),
                (''GPT-4'', 9 / 200), (''Claude Opus'', 9 / 200)]
   \<and> sorted (comparedCosts (compareCosts 1000 exampleEnv memoryTracker))"
  using compareCosts_1000_sorted_with_tie [OF memoryTracker_compare, of exampleEnv]
    memoryTracker_compare
  by simp

lemma tie_not_strict:
  fixes a b c d :: rat
  shows "\<not> sorted_wrt (<) [a, b, c, d, d]" and "\<not> distinct [a, b, c, d, d]"
  by simp_all

theorem compareCosts_1000_counterexample:
  "comparedCosts (compareCosts 1000 exampleEnv memoryTracker)
     = [3 / 4000, 1 / 1000, 9 / 1000, 9 / 200, 9 / 200]
   \<and> \<not> sorted_wrt (<) (comparedCosts (compareCosts 1000 exampleEnv memoryTracker))
   \<and> \<not> distinct (comparedCosts (compareCosts 1000 exampleEnv memoryTracker))"
proof -
  have m: "fst (compareMap 1000 exampleEnv 0 compareModels memoryTracker) =
           Inr [(''GPT-3.5'', 1 / 1000), (''GPT-4'', 9 / 200), (''Claude Haiku'', 3 / 4000),
                (''Claude Sonnet'', 9 / 1000), (''Claude Opus'', 9 / 200)]"
    by (intro compareMap_1000) simp_all
  obtain r s1 where c: "compareMap 1000 exampleEnv 0 compareModels memoryTracker = (r, s1)"
    by (cases "compareMap 1000 exampleEnv 0 compareModels memoryTracker")
  with m have r: "r = Inr [(''GPT-3.5'', 1 / 1000), (''GPT-4'', 9 / 200),
      (''Claude Haiku'', 3 / 4000), (''Claude Sonnet'', 9 / 1000), (''Claude Opus'', 9 / 200)]"
    by simp
  have "fst (compareCosts 1000 exampleEnv memoryTracker) =
          Inr (sort_key snd [(''GPT-3.5'', 1 / 1000), (''GPT-4'', 9 / 200),
      (''Claude Haiku'', 3 / 4000), (''Claude Sonnet'', 9 / 1000), (''Claude Opus'', 9 / 200)])"
    by (simp add: compareCosts_def c r del: sort_key_simps)
  then have "comparedCosts (compareCosts 1000 exampleEnv memoryTracker)
     = [3 / 4000, 1 / 1000, 9 / 1000, 9 / 200, 9 / 200]"
    by (simp add: comparedCosts_def sort_rows del: sort_key_simps)
  then show ?thesis
    using tie_not_strict [of "3 / 4000" "1 / 1000" "9 / 1000" "9 / 200"]
    by (simp only: simp_thms)
qed

end
